(* ===== verification/Prelude.thy ===== *)
theory Prelude
  imports Main "HOL-Library.Word" "HOL-Library.AList"
begin

text \<open>
  Shared vocabulary of the go-file-helper development: the Go scalar types the
  model uses (\<open>int64\<close> as a 64-bit word, bytes, readers, wall-clock time), the
  characters that the source's format strings splice in, the Go run-time outcome
  of a call (a normal return or a panic), and generic lemmas on lists and
  characters that the component theories share.
\<close>

section \<open>Go scalar types\<close>

type_synonym int64 = "64 word"
type_synonym byte = "8 word"

text \<open>
  An \<open>io.Reader\<close> is modelled by the bytes it would yield; a \<open>time.Time\<close> by the
  nanoseconds on the process clock. The clock is monotonic in the model, as Go's
  monotonic reading used by \<open>time.Since\<close> is.
\<close>

type_synonym reader = "byte list"
type_synonym time = nat

section \<open>Characters of the source's format strings\<close>

definition squote :: char where
  "squote = CHR 0x27"

definition dquote :: char where
  "dquote = CHR 0x22"

definition slash :: char where
  "slash = CHR ''/''"

definition dot :: char where
  "dot = CHR ''.''"

text \<open>\<open>'%s'\<close> in a Go format string: the argument between single quotes.\<close>

definition quoted :: "string \<Rightarrow> string" where
  "quoted s = squote # s @ [squote]"

lemma quoted_simps:
  "quoted s = CHR 0x27 # s @ [CHR 0x27]"
  by (simp add: quoted_def squote_def)

lemma slash_dot_distinct [simp]:
  "slash \<noteq> dot" "dot \<noteq> slash"
  by (simp_all add: slash_def dot_def)

section \<open>Outcomes of a Go call\<close>

text \<open>
  A Go method call either returns its results or panics. A panic unwinds the
  caller; deferred functions still run. The message of the one panic the model
  has, a nil dereference, is the run time's.
\<close>

datatype 'a outcome = Normal 'a | Panicked string

definition nil_deref :: string where
  "nil_deref = ''runtime error: invalid memory address or nil pointer dereference''"

primrec normal_value :: "'a outcome \<Rightarrow> 'a option" where
  "normal_value (Normal v) = Some v"
| "normal_value (Panicked m) = None"

section \<open>Generic lemmas\<close>

named_theorems go_defs \<open>unfoldings of the Go operations the components compose\<close>

text \<open>A count far below \<open>2^63\<close> keeps its value as an \<open>int64\<close>.\<close>

lemma sint_of_nat_small:
  assumes "n < 2 ^ 63"
  shows "sint (word_of_nat n :: 64 word) = int n"
proof -
  have "sint (word_of_int (int n) :: 64 word) =
      (int n + 2 ^ (LENGTH(64) - 1)) mod 2 ^ LENGTH(64) - 2 ^ (LENGTH(64) - 1)"
    by (rule int_word_sint)
  then have "sint (word_of_nat n :: 64 word) = (int n + 2 ^ 63) mod 2 ^ 64 - 2 ^ 63"
    by simp
  moreover have "(int n + 2 ^ 63) mod 2 ^ 64 = int n + 2 ^ 63"
    using assms by (intro mod_pos_pos_trivial) simp_all
  ultimately show ?thesis by simp
qed

end
