(* ===== verification/GoErrors.thy ===== *)
theory GoErrors
  imports Prelude
begin

text \<open>
  The error values of the program, as \<open>github.com/pkg/errors\<close> builds them.
  \<open>errors.New\<close> allocates a \<open>*fundamental\<close>; \<open>errors.Wrap\<close> and
  \<open>errors.Wrapf\<close> put a \<open>*withMessage\<close> (the context text) under a
  \<open>*withStack\<close> (the call stack, invisible to \<open>Error()\<close>). Go compares error
  values by pointer: the identity of a \<open>*fundamental\<close> is its allocation site,
  so a sentinel such as \<open>ErrBucketNotExists\<close> is matched by its site and never by
  its text. Errors that the object-storage client returns are fundamentals of a
  foreign site.

  A Go \<open>error\<close> is an interface value that may be nil: \<open>gerror option\<close>,
  \<open>None\<close> for nil.
\<close>

datatype err_site =
    Site_ErrUnsupportedType
  | Site_ErrBucketNotExists
  | Site_Foreign nat

datatype gerror =
    Fundamental err_site string
  | WithMessage gerror string
  | WithStack gerror

section \<open>Constructors of pkg/errors\<close>

definition errors_New :: "err_site \<Rightarrow> string \<Rightarrow> gerror" where
  "errors_New site msg = Fundamental site msg"

text \<open>
  \<open>Wrap(err, msg)\<close> returns nil for a nil \<open>err\<close>; the program calls it on
  non-nil errors only (each call sits under an \<open>err != nil\<close> test), so the
  model takes the non-nil error. \<open>Wrapf\<close> is \<open>Wrap\<close> of the formatted text;
  the caller formats.
\<close>

definition errors_Wrap :: "gerror \<Rightarrow> string \<Rightarrow> gerror" where
  "errors_Wrap e msg = WithStack (WithMessage e msg)"

abbreviation errors_Wrapf :: "gerror \<Rightarrow> string \<Rightarrow> gerror" where
  "errors_Wrapf \<equiv> errors_Wrap"

section \<open>Observers\<close>

text \<open>\<open>err.Error()\<close>: a message prefixes the cause's text with \<open>": "\<close>.\<close>

primrec Error :: "gerror \<Rightarrow> string" where
  "Error (Fundamental s m) = m"
| "Error (WithMessage e m) = m @ '': '' @ Error e"
| "Error (WithStack e) = Error e"

text \<open>\<open>errors.Cause\<close>: follow \<open>Cause()\<close> until a value without one.\<close>

primrec Cause :: "gerror \<Rightarrow> gerror" where
  "Cause (Fundamental s m) = Fundamental s m"
| "Cause (WithMessage e m) = Cause e"
| "Cause (WithStack e) = Cause e"

text \<open>\<open>errors.Unwrap\<close> and \<open>errors.Is\<close> of the standard library.\<close>

primrec Unwrap :: "gerror \<Rightarrow> gerror option" where
  "Unwrap (Fundamental s m) = None"
| "Unwrap (WithMessage e m) = Some e"
| "Unwrap (WithStack e) = Some e"

primrec Is :: "gerror \<Rightarrow> gerror \<Rightarrow> bool" where
  "Is (Fundamental s m) t = (Fundamental s m = t)"
| "Is (WithMessage e m) t = (WithMessage e m = t \<or> Is e t)"
| "Is (WithStack e) t = (WithStack e = t \<or> Is e t)"

section \<open>Wrapping keeps the cause\<close>

lemma Error_Wrap [simp]:
  "Error (errors_Wrap e msg) = msg @ '': '' @ Error e"
  by (simp add: errors_Wrap_def)

lemma Cause_Wrap [simp]:
  "Cause (errors_Wrap e msg) = Cause e"
  by (simp add: errors_Wrap_def)

lemma Cause_is_Fundamental:
  "\<exists>s m. Cause e = Fundamental s m"
  by (induction e) auto

lemma Is_Cause:
  "Is e (Cause e)"
  by (induction e) auto

lemma Is_Wrap:
  "Is (errors_Wrap e msg) t \<longleftrightarrow> errors_Wrap e msg = t \<or> WithMessage e msg = t \<or> Is e t"
  by (auto simp: errors_Wrap_def)

text \<open>A fundamental target is found exactly when it is the root cause.\<close>

lemma Is_Fundamental_iff:
  "Is e (Fundamental s m) \<longleftrightarrow> Cause e = Fundamental s m"
  by (induction e) auto

lemma Is_Wrap_Fundamental [simp]:
  "Is (errors_Wrap e msg) (Fundamental s m) \<longleftrightarrow> Is e (Fundamental s m)"
  by (simp add: Is_Fundamental_iff)

lemma Is_Fundamental_self [simp]:
  "Is (Fundamental s m) t \<longleftrightarrow> t = Fundamental s m"
  by auto

end
