(* ===== verification/GoStd.thy ===== *)
theory GoStd
  imports Prelude
begin

text \<open>
  The functions of Go's standard library that the S3 adapter calls, translated
  from their Go source (Unix build, where the path separator is \<open>/\<close> and the
  volume name is empty): \<open>path/filepath.Ext\<close> and \<open>path/filepath.Base\<close>, the
  lookup of \<open>mime.TypeByExtension\<close> over the process's MIME table, and the part
  of \<open>net/url\<close> the adapter touches (\<open>url.Values\<close> with \<open>Set\<close>, and the
  \<open>url.URL\<close> value). Each loop of the Go source is a recursion on the index it
  counts down, with a reference definition it is proved equal to.
\<close>

section \<open>filepath.Ext\<close>

text \<open>
  \<^verbatim>\<open>for i := len(path) - 1; i >= 0 && !os.IsPathSeparator(path[i]); i-- {
      if path[i] == '.' { return path[i:] } }
  return ""\<close>
  \<open>ext_scan p i\<close> is the loop with the indices below \<open>i\<close> still to visit.
\<close>

primrec ext_scan :: "string \<Rightarrow> nat \<Rightarrow> string" where
  "ext_scan p 0 = []"
| "ext_scan p (Suc i) =
     (if p ! i = slash then [] else if p ! i = dot then drop i p else ext_scan p i)"

definition filepath_Ext :: "string \<Rightarrow> string" where
  "filepath_Ext p = ext_scan p (length p)"

text \<open>The reference: the suffix from the last dot of the last path element.\<close>

definition ext_spec :: "string \<Rightarrow> string" where
  "ext_spec p =
     (let tl_elem = takeWhile (\<lambda>c. c \<noteq> slash) (rev p)
      in if dot \<in> set tl_elem then dot # rev (takeWhile (\<lambda>c. c \<noteq> dot) tl_elem) else [])"

lemma ext_scan_spec:
  assumes "i \<le> length p" and "slash \<notin> set (drop i p)" and "dot \<notin> set (drop i p)"
  shows "ext_scan p i = ext_spec p"
  using assms
proof (induction i)
  case 0
  then show ?case by (auto simp: ext_spec_def Let_def dest: set_takeWhileD)
next
  case (Suc i)
  have i: "i < length p" using Suc.prems(1) by simp
  have split: "rev p = rev (drop (Suc i) p) @ p ! i # rev (take i p)"
    using i by (metis Cons_nth_drop_Suc append_take_drop_id rev.simps(2) rev_append
        append_assoc append_Cons append_Nil)
  have tw_slash: "takeWhile (\<lambda>c. c \<noteq> slash) (rev (drop (Suc i) p) @ xs) =
      rev (drop (Suc i) p) @ takeWhile (\<lambda>c. c \<noteq> slash) xs" for xs
    using Suc.prems(2) by (intro takeWhile_append2) auto
  have tw_dot: "takeWhile (\<lambda>c. c \<noteq> dot) (rev (drop (Suc i) p) @ xs) =
      rev (drop (Suc i) p) @ takeWhile (\<lambda>c. c \<noteq> dot) xs" for xs
    using Suc.prems(3) by (intro takeWhile_append2) auto
  show ?case
  proof (cases "p ! i = slash")
    case True
    then show ?thesis
      using Suc.prems(3) by (simp add: ext_spec_def Let_def split tw_slash)
  next
    case notsl: False
    show ?thesis
    proof (cases "p ! i = dot")
      case True
      have "drop i p = dot # drop (Suc i) p"
        using i True by (metis Cons_nth_drop_Suc)
      then show ?thesis
        using True notsl by (simp add: ext_spec_def Let_def split tw_slash tw_dot)
    next
      case False
      have "drop i p = p ! i # drop (Suc i) p" using i by (simp add: Cons_nth_drop_Suc)
      with notsl False Suc.prems have "ext_scan p i = ext_spec p"
        by (intro Suc.IH) auto
      with notsl False show ?thesis by simp
    qed
  qed
qed

lemma filepath_Ext_spec:
  "filepath_Ext p = ext_spec p"
  by (simp add: filepath_Ext_def ext_scan_spec)

text \<open>The extension is empty or starts with the dot, and never crosses a separator.\<close>

lemma filepath_Ext_shape:
  "filepath_Ext p = [] \<or> (\<exists>r. filepath_Ext p = dot # r \<and> dot \<notin> set r \<and> slash \<notin> set r)"
  by (auto simp: filepath_Ext_spec ext_spec_def Let_def dest: set_takeWhileD)

section \<open>filepath.Base\<close>

text \<open>
  \<^verbatim>\<open>if path == "" { return "." }
  for len(path) > 0 && os.IsPathSeparator(path[len(path)-1]) { path = path[0 : len(path)-1] }
  path = path[len(VolumeName(path)):]
  i := len(path) - 1
  for i >= 0 && !os.IsPathSeparator(path[i]) { i-- }
  if i >= 0 { path = path[i+1:] }
  if path == "" { return string(Separator) }
  return path\<close>
  The first loop strips trailing separators; the second finds the last one.
\<close>

function trim_seps :: "string \<Rightarrow> string" where
  "trim_seps p = (if p \<noteq> [] \<and> last p = slash then trim_seps (butlast p) else p)"
  by pat_completeness auto
termination
  by (relation "measure length") auto

declare trim_seps.simps [simp del]

primrec sep_scan :: "string \<Rightarrow> nat \<Rightarrow> nat option" where
  "sep_scan p 0 = None"
| "sep_scan p (Suc i) = (if p ! i = slash then Some i else sep_scan p i)"

definition filepath_Base :: "string \<Rightarrow> string" where
  "filepath_Base p =
     (if p = [] then ''.''
      else let p1 = trim_seps p;
               p2 = (case sep_scan p1 (length p1) of Some i \<Rightarrow> drop (Suc i) p1 | None \<Rightarrow> p1)
           in if p2 = [] then [slash] else p2)"

text \<open>The reference: the last element of the path once trailing separators are gone.\<close>

definition base_spec :: "string \<Rightarrow> string" where
  "base_spec p =
     (if p = [] then ''.''
      else let q = dropWhile (\<lambda>c. c = slash) (rev p)
           in if q = [] then [slash] else rev (takeWhile (\<lambda>c. c \<noteq> slash) q))"

lemma trim_seps_eq:
  "trim_seps p = rev (dropWhile (\<lambda>c. c = slash) (rev p))"
proof (induction p rule: trim_seps.induct)
  case (1 p)
  show ?case
  proof (cases "p \<noteq> [] \<and> last p = slash")
    case True
    then obtain q where q: "p = q @ [slash]"
      by (metis append_butlast_last_id)
    have "trim_seps p = trim_seps (butlast p)"
      using True by (simp add: trim_seps.simps [of p])
    with True "1.IH" q show ?thesis by simp
  next
    case False
    then have "trim_seps p = p" by (metis trim_seps.simps)
    with False show ?thesis by (cases p rule: rev_cases) auto
  qed
qed

lemma sep_scan_less:
  "sep_scan p i = Some j \<Longrightarrow> j < i"
  by (induction i) (auto split: if_splits)

lemma sep_scan_last_elem:
  assumes "i \<le> length p"
  shows "(case sep_scan p i of Some j \<Rightarrow> drop (Suc j) (take i p) | None \<Rightarrow> take i p) =
         rev (takeWhile (\<lambda>c. c \<noteq> slash) (rev (take i p)))"
  using assms
proof (induction i)
  case 0
  then show ?case by simp
next
  case (Suc i)
  then have i: "i < length p" by simp
  then have tk: "take (Suc i) p = take i p @ [p ! i]"
    by (simp add: take_Suc_conv_app_nth)
  show ?case
  proof (cases "p ! i = slash")
    case True
    with i show ?thesis by (simp add: tk)
  next
    case False
    have IH: "(case sep_scan p i of Some j \<Rightarrow> drop (Suc j) (take i p) | None \<Rightarrow> take i p) =
        rev (takeWhile (\<lambda>c. c \<noteq> slash) (rev (take i p)))"
      using Suc by simp
    show ?thesis
    proof (cases "sep_scan p i")
      case None
      with False IH show ?thesis by (simp add: tk)
    next
      case (Some j)
      then have "j < i" by (rule sep_scan_less)
      with i have "drop (Suc j) (take i p @ [p ! i]) = drop (Suc j) (take i p) @ [p ! i]"
        by simp
      with Some False IH show ?thesis by (simp add: tk)
    qed
  qed
qed

lemma takeWhile_dropWhile_nonempty:
  "takeWhile (\<lambda>c. c \<noteq> x) (dropWhile (\<lambda>c. c = x) xs) = [] \<Longrightarrow> dropWhile (\<lambda>c. c = x) xs = []"
  by (metis hd_dropWhile takeWhile_eq_Nil_iff)

lemma sep_scan_whole:
  "(case sep_scan q (length q) of Some i \<Rightarrow> drop (Suc i) q | None \<Rightarrow> q) =
   rev (takeWhile (\<lambda>c. c \<noteq> slash) (rev q))"
proof -
  have "take (length q) q = q" by simp
  with sep_scan_last_elem [of "length q" q] show ?thesis by (simp only: order_refl)
qed

lemma filepath_Base_spec:
  "filepath_Base p = base_spec p"
proof (cases "p = []")
  case True
  then show ?thesis by (simp add: filepath_Base_def base_spec_def)
next
  case False
  define q where "q = dropWhile (\<lambda>c. c = slash) (rev p)"
  define r where "r = takeWhile (\<lambda>c. c \<noteq> slash) q"
  have tw: "r = [] \<longleftrightarrow> q = []"
    unfolding r_def q_def by (metis takeWhile_dropWhile_nonempty takeWhile.simps(1))
  have "filepath_Base p = (if rev r = [] then [slash] else rev r)"
    using False unfolding filepath_Base_def Let_def sep_scan_whole trim_seps_eq
    by (simp only: rev_rev_ident flip: q_def r_def) simp
  moreover have "base_spec p = (if q = [] then [slash] else rev r)"
    using False unfolding base_spec_def Let_def by (simp only: flip: q_def r_def) simp
  ultimately show ?thesis using tw by simp
qed

lemma filepath_Base_shape:
  "filepath_Base p \<noteq> [] \<and> (slash \<notin> set (filepath_Base p) \<or> filepath_Base p = [slash])"
proof (cases "p = []")
  case True
  then show ?thesis by (simp add: filepath_Base_spec base_spec_def slash_def)
next
  case False
  define q where "q = dropWhile (\<lambda>c. c = slash) (rev p)"
  define r where "r = takeWhile (\<lambda>c. c \<noteq> slash) q"
  have tw: "r = [] \<longleftrightarrow> q = []"
    unfolding r_def q_def by (metis takeWhile_dropWhile_nonempty takeWhile.simps(1))
  have r: "slash \<notin> set r"
    unfolding r_def by (blast dest: set_takeWhileD)
  have "filepath_Base p = (if q = [] then [slash] else rev r)"
    using False unfolding filepath_Base_spec base_spec_def Let_def
    by (simp only: flip: q_def r_def) simp
  with tw r show ?thesis by simp
qed

lemma filepath_Base_last_elem:
  assumes "n \<noteq> []" and "slash \<notin> set n"
  shows "filepath_Base (d @ slash # n) = n"
proof -
  obtain c cs where n: "rev n = c # cs"
    using assms(1) by (cases "rev n") auto
  with assms(2) have c: "c \<noteq> slash" and cs: "slash \<notin> set cs"
    by (metis list.set_intros set_rev)+
  have rv: "rev (d @ slash # n) = c # cs @ slash # rev d"
    using n by simp
  have "dropWhile (\<lambda>x. x = slash) (c # cs @ slash # rev d) = c # cs @ slash # rev d"
    using c by simp
  moreover have "takeWhile (\<lambda>x. x \<noteq> slash) (cs @ slash # rev d) = cs"
    using cs by (subst takeWhile_append2) auto
  then have "takeWhile (\<lambda>x. x \<noteq> slash) (c # cs @ slash # rev d) = c # cs"
    using c by simp
  ultimately have "base_spec (d @ slash # n) = rev (c # cs)"
    unfolding base_spec_def Let_def rv by simp
  with n show ?thesis by (simp add: filepath_Base_spec)
qed
section \<open>mime.TypeByExtension\<close>

text \<open>
  \<^verbatim>\<open>if v, ok := mimeTypes.Load(ext); ok { return v.(string) }
  var buf [10]byte; lower := buf[:0]
  for i := 0; i < len(ext); i++ {
      c := ext[i]
      if c >= utf8RuneSelf { si, _ := mimeTypesLower.Load(strings.ToLower(ext)); ... return s }
      if 'A' <= c && c <= 'Z' { lower = append(lower, c+('a'-'A')) } else { lower = append(lower, c) }
  }
  si, _ := mimeTypesLower.Load(string(lower)); s, _ := si.(string); return s\<close>
  The two tables are process-global and filled once, from the built-in table and
  the system's \<open>mime.types\<close> files; the model takes them as a value. The loop is
  Go's allocation-free fast path; an extension with a byte of \<open>0x80\<close> or more
  leaves it for \<open>strings.ToLower\<close>, whose Unicode case mapping is not modelled:
  \<open>strings_ToLower\<close> folds the ASCII letters and keeps the other bytes, which is
  Go's result on every extension whose non-ASCII characters have no lower case.
\<close>

record mime_db =
  mimeTypes :: "string \<rightharpoonup> string"
  mimeTypesLower :: "string \<rightharpoonup> string"

definition ascii_lower :: "char \<Rightarrow> char" where
  "ascii_lower c =
     (if (65::nat) \<le> of_char c \<and> of_char c \<le> (90::nat) then char_of (of_char c + (32::nat)) else c)"

text \<open>The loop over the bytes of \<open>ext\<close>, appending to \<open>lower\<close>; \<open>None\<close> is the exit to
  the slow path.\<close>

primrec lower_ascii_scan :: "string \<Rightarrow> string \<Rightarrow> string option" where
  "lower_ascii_scan [] lower = Some lower"
| "lower_ascii_scan (c # cs) lower =
     (if (128::nat) \<le> of_char c then None
      else lower_ascii_scan cs (lower @ [if (65::nat) \<le> of_char c \<and> of_char c \<le> (90::nat)
                                         then char_of (of_char c + (32::nat)) else c]))"

definition strings_ToLower :: "string \<Rightarrow> string" where
  "strings_ToLower s = map ascii_lower s"

definition mime_TypeByExtension :: "mime_db \<Rightarrow> string \<Rightarrow> string" where
  "mime_TypeByExtension db ext =
     (case mimeTypes db ext of
        Some v \<Rightarrow> v
      | None \<Rightarrow>
          (let lower = (case lower_ascii_scan ext [] of Some l \<Rightarrow> l | None \<Rightarrow> strings_ToLower ext)
           in case mimeTypesLower db lower of Some v \<Rightarrow> v | None \<Rightarrow> []))"

text \<open>The fast loop computes the ASCII lower case of an ASCII extension, and exits
  exactly when a byte is not ASCII.\<close>

lemma lower_ascii_scan_eq:
  "lower_ascii_scan ext lower =
     (if list_all (\<lambda>c. of_char c < (128::nat)) ext then Some (lower @ map ascii_lower ext) else None)"
  by (induction ext arbitrary: lower) (auto simp: ascii_lower_def not_le)

text \<open>So the lookup is the reference one: exact, then in the lower-case table under
  the ASCII lower case of the extension.\<close>

lemma mime_TypeByExtension_ref:
  "mime_TypeByExtension db ext =
     (case mimeTypes db ext of
        Some v \<Rightarrow> v
      | None \<Rightarrow> (case mimeTypesLower db (map ascii_lower ext) of Some v \<Rightarrow> v | None \<Rightarrow> []))"
proof -
  have "(case lower_ascii_scan ext [] of Some l \<Rightarrow> l | None \<Rightarrow> strings_ToLower ext) = map ascii_lower ext"
    by (simp add: lower_ascii_scan_eq strings_ToLower_def)
  then show ?thesis unfolding mime_TypeByExtension_def Let_def by (rule ssubst) (rule refl)
qed

lemma mime_TypeByExtension_unknown:
  "mimeTypes db ext = None \<Longrightarrow> mimeTypesLower db (map ascii_lower ext) = None \<Longrightarrow>
   mime_TypeByExtension db ext = []"
  by (simp add: mime_TypeByExtension_ref)

section \<open>net/url\<close>

text \<open>
  \<open>url.Values\<close> is a \<open>map[string][]string\<close>; \<open>Set\<close> replaces the values of a
  key by one value, \<open>Get\<close> reads the first value or \<open>""\<close>. An association list
  keeps the map executable. A \<open>url.URL\<close> is kept with the fields the program
  observes.
\<close>

type_synonym url_values = "(string \<times> string list) list"

definition values_Set :: "string \<Rightarrow> string \<Rightarrow> url_values \<Rightarrow> url_values" where
  "values_Set k v vs = AList.update k [v] vs"

definition values_Get :: "string \<Rightarrow> url_values \<Rightarrow> string" where
  "values_Get k vs = (case map_of vs k of Some (v # _) \<Rightarrow> v | _ \<Rightarrow> [])"

lemma values_Set_empty [simp]: "values_Set k v [] = [(k, [v])]"
  by (simp add: values_Set_def)

lemma values_Get_Set_same [simp]:
  "values_Get k (values_Set k v vs) = v"
  by (simp add: values_Get_def values_Set_def update_conv)

lemma values_Get_Set_other [simp]:
  "k' \<noteq> k \<Longrightarrow> values_Get k' (values_Set k v vs) = values_Get k' vs"
  by (simp add: values_Get_def values_Set_def update_conv)

record url =
  Scheme :: string
  Host :: string
  Path :: string
  RawQuery :: string

definition url_String :: "url \<Rightarrow> string" where
  "url_String u =
     Scheme u @ ''://'' @ Host u @ Path u @ (if RawQuery u = [] then [] else CHR ''?'' # RawQuery u)"

end
