(* ===== verification/Schema.thy ===== *)
theory Schema
  imports GoErrors GoStd
begin

text \<open>
  The data of \<open>schema/schema.go\<close> (\<open>FileInfo\<close>, \<open>Credentials\<close>) and the
  world every operation runs in. The \<open>Service\<close> interface of that file is the
  three operation types below; its implementations and the interface values that
  hold them are in \<open>S3\<close>, \<open>Logging\<close> and \<open>Service\<close>.

  The world holds what the operations read and change outside their arguments:
  the state of the object-storage network (a type parameter: the S3 adapter
  treats the client library as a black box), the process clock, the MIME tables
  of the \<open>mime\<close> package, and the lines written to loggers. A network call is a
  function of the network state that also reports how long it took; running it
  advances the clock by that much, so the clock never goes back.
\<close>

section \<open>schema.go\<close>

record FileInfo =
  FullPath :: string
  Bucket :: string
  Region :: string
  MimeType :: string
  Size :: int64
  CreatedAt :: time

record Credentials =
  Endpoint :: string
  ClientID :: string
  ClientSecret :: string
  UseSSL :: bool
  Bucket :: string
  Region :: string

text \<open>\<open>schema.FileInfo{}\<close>: the zero value returned with every error.\<close>

definition zero_FileInfo :: FileInfo where
  "zero_FileInfo = \<lparr>FullPath = [], FileInfo.Bucket = [], FileInfo.Region = [], MimeType = [],
     Size = 0, CreatedAt = 0\<rparr>"

section \<open>Loggers and log lines\<close>

text \<open>
  A go-kit \<open>log.Logger\<close> is named by the sink it writes to. \<open>Log(keyvals...)\<close>
  appends one line of key/value pairs; the values the program logs are strings,
  \<open>int64\<close>s, errors, URLs and durations (nanoseconds).
\<close>

datatype logger = Logger nat

datatype log_val =
    LStr string
  | LInt int64
  | LErr "gerror option"
  | LURL "url option"
  | LDur int

type_synonym log_line = "logger \<times> (string \<times> log_val) list"

section \<open>The world\<close>

record 'n world =
  net :: 'n
  clock :: time
  mime :: mime_db
  logs :: "log_line list"

text \<open>A network call: its result, the next network state, and its duration.\<close>

type_synonym ('r, 'n) net_call = "'n \<Rightarrow> 'r \<times> 'n \<times> nat"

definition run_net :: "('r, 'n) net_call \<Rightarrow> 'n world \<Rightarrow> 'r \<times> 'n world" where
  "run_net c w =
     (case c (net w) of (r, n', d) \<Rightarrow> (r, w\<lparr>net := n', clock := clock w + d\<rparr>))"

text \<open>\<open>logger.Log(keyvals...)\<close>.\<close>

definition log_append :: "logger \<Rightarrow> (string \<times> log_val) list \<Rightarrow> 'n world \<Rightarrow> 'n world" where
  "log_append l kv w = w\<lparr>logs := logs w @ [(l, kv)]\<rparr>"

lemma run_net_frame [simp]:
  "logs (snd (run_net c w)) = logs w"
  "mime (snd (run_net c w)) = mime w"
  "clock w \<le> clock (snd (run_net c w))"
  by (auto simp: run_net_def split: prod.splits)

lemma run_net_fst [simp]:
  "fst (run_net c w) = fst (c (net w))"
  by (simp add: run_net_def split: prod.splits)

lemma run_net_snd:
  "snd (run_net c w) = w\<lparr>net := fst (snd (c (net w))), clock := clock w + snd (snd (c (net w)))\<rparr>"
  by (simp add: run_net_def split: prod.splits)

lemma run_net_result:
  "c (net w) = (r, n', d) \<Longrightarrow> run_net c w = (r, w\<lparr>net := n', clock := clock w + d\<rparr>)"
  by (simp add: run_net_def)

lemma log_append_simps [simp]:
  "logs (log_append l kv w) = logs w @ [(l, kv)]"
  "net (log_append l kv w) = net w"
  "clock (log_append l kv w) = clock w"
  "mime (log_append l kv w) = mime w"
  by (simp_all add: log_append_def)

section \<open>The Service interface\<close>

text \<open>
  An operation of the interface runs in the world and either returns or panics.
  The three methods of \<open>schema.Service\<close>:
  \<^verbatim>\<open>Store(fname string, r io.Reader, size int64) (FileInfo, error)
  Delete(fname string) error
  GetPublicURL(fname string) ( *url.URL, error)\<close>
\<close>

type_synonym ('a, 'n) op = "'n world \<Rightarrow> 'a outcome \<times> 'n world"

type_synonym 'n store_fn = "string \<Rightarrow> reader \<Rightarrow> int64 \<Rightarrow> (FileInfo \<times> gerror option, 'n) op"
type_synonym 'n delete_fn = "string \<Rightarrow> (gerror option, 'n) op"
type_synonym 'n url_fn = "string \<Rightarrow> (url option \<times> gerror option, 'n) op"

end
