(* ===== verification/S3.thy ===== *)
theory S3
  imports Schema
begin

text \<open>
  The S3 backend, \<open>s3/service.go\<close>. The minio client is an external library:
  the adapter sees it through the five calls it makes, a record of functions over
  a client handle \<open>'c\<close> and the network state \<open>'n\<close>. Every lemma here holds
  for any client; \<open>MinioModel\<close> gives one concrete client to run them on.
  The adapter's methods have a non-nil receiver here; a nil \<open>*Service\<close> (which
  panics) is the business of the interface values in \<open>Service\<close>.
\<close>

section \<open>The client interface\<close>

record PutObjectOptions =
  ContentType :: string

type_synonym duration = int64

record ('c, 'n) minio_api =
  minio_New :: "string \<Rightarrow> string \<Rightarrow> string \<Rightarrow> bool \<Rightarrow> 'c \<times> gerror option"
  BucketExists :: "'c \<Rightarrow> string \<Rightarrow> (bool \<times> gerror option, 'n) net_call"
  PutObject :: "'c \<Rightarrow> string \<Rightarrow> string \<Rightarrow> reader \<Rightarrow> int64 \<Rightarrow> PutObjectOptions
                 \<Rightarrow> (int64 \<times> gerror option, 'n) net_call"
  RemoveObject :: "'c \<Rightarrow> string \<Rightarrow> string \<Rightarrow> (gerror option, 'n) net_call"
  PresignedGetObject :: "'c \<Rightarrow> string \<Rightarrow> string \<Rightarrow> duration \<Rightarrow> url_values
                 \<Rightarrow> (url option \<times> gerror option, 'n) net_call"

section \<open>s3/service.go\<close>

definition ErrBucketNotExists :: gerror where
  "ErrBucketNotExists = errors_New Site_ErrBucketNotExists (''bucket doesn'' @ squote # ''t exist'')"

record 'c S3Service =
  creds :: Credentials
  client :: 'c

definition time_Hour :: duration where
  "time_Hour = 3600000000000"

text \<open>\<open>Store\<close>: the MIME type from the extension, one \<open>PutObject\<close>, then the record.\<close>

definition s3_Store :: "('c, 'n) minio_api \<Rightarrow> 'c S3Service \<Rightarrow> string \<Rightarrow> reader \<Rightarrow> int64 \<Rightarrow>
    'n world \<Rightarrow> (FileInfo \<times> gerror option) \<times> 'n world" where
  "s3_Store api s fname r sz w =
     (let ext = filepath_Ext fname;
          mtype = mime_TypeByExtension (mime w) ext;
          opts = \<lparr>ContentType = mtype\<rparr>;
          ((actualSize, err), w1) =
            run_net (PutObject api (client s) (Credentials.Bucket (creds s)) fname r sz opts) w
      in case err of
           Some e \<Rightarrow> ((zero_FileInfo, Some (errors_Wrapf e (''failed to store file '' @ quoted fname))), w1)
         | None \<Rightarrow> ((\<lparr>FullPath = fname, FileInfo.Bucket = Credentials.Bucket (creds s),
                      FileInfo.Region = Credentials.Region (creds s), MimeType = mtype,
                      Size = actualSize, CreatedAt = clock w1\<rparr>, None), w1))"

definition s3_Delete :: "('c, 'n) minio_api \<Rightarrow> 'c S3Service \<Rightarrow> string \<Rightarrow>
    'n world \<Rightarrow> gerror option \<times> 'n world" where
  "s3_Delete api s fname w =
     (let (err, w1) = run_net (RemoveObject api (client s) (Credentials.Bucket (creds s)) fname) w
      in (case err of
            None \<Rightarrow> None
          | Some e \<Rightarrow> Some (errors_Wrapf e (''cannot delete '' @ quoted fname)), w1))"

text \<open>\<open>attachment; filename="<base>"\<close>, the content-disposition the URL asks for.\<close>

definition cd_header :: "string \<Rightarrow> string" where
  "cd_header basename = ''attachment; filename='' @ dquote # basename @ [dquote]"

definition s3_GetPublicURL :: "('c, 'n) minio_api \<Rightarrow> 'c S3Service \<Rightarrow> string \<Rightarrow>
    'n world \<Rightarrow> (url option \<times> gerror option) \<times> 'n world" where
  "s3_GetPublicURL api s fname w =
     (let basename = filepath_Base fname;
          cdHeader = cd_header basename;
          reqParams = values_Set ''response-content-disposition'' cdHeader [];
          ((u, err), w1) =
            run_net (PresignedGetObject api (client s) (Credentials.Bucket (creds s)) fname
                       (time_Hour * 24) reqParams) w
      in case err of
           Some e \<Rightarrow>
             ((None, Some (errors_Wrapf e (''unable to get S3 pre-signed URL for file '' @ quoted fname))), w1)
         | None \<Rightarrow> ((u, None), w1))"

text \<open>\<open>NewService\<close>: build the client, then check the bucket before returning.\<close>

definition s3_NewService :: "('c, 'n) minio_api \<Rightarrow> Credentials \<Rightarrow>
    'n world \<Rightarrow> ('c S3Service option \<times> gerror option) \<times> 'n world" where
  "s3_NewService api cr w =
     (case minio_New api (Endpoint cr) (ClientID cr) (ClientSecret cr) (UseSSL cr) of
        (cl, Some e) \<Rightarrow> ((None, Some (errors_Wrap e ''cannot create s3 client'')), w)
      | (cl, None) \<Rightarrow>
          (let ((exists, err), w1) = run_net (BucketExists api cl (Credentials.Bucket cr)) w
           in case err of
                Some e \<Rightarrow> ((None, Some (errors_Wrap e ''bucket error'')), w1)
              | None \<Rightarrow>
                  if \<not> exists
                  then ((None, Some (errors_Wrapf ErrBucketNotExists (''bucket '' @ Credentials.Bucket cr))), w1)
                  else ((Some \<lparr>creds = cr, client = cl\<rparr>, None), w1)))"

text \<open>The \<open>PutObject\<close> call that \<open>Store\<close> makes in world \<open>w\<close>.\<close>

abbreviation put_call where
  "put_call api s fname r sz w \<equiv>
     PutObject api (client s) (Credentials.Bucket (creds s)) fname r sz
       \<lparr>ContentType = mime_TypeByExtension (mime w) (filepath_Ext fname)\<rparr> (net w)"

lemmas s3_defs [go_defs] = s3_Store_def s3_Delete_def s3_GetPublicURL_def s3_NewService_def

section \<open>Behaviour of each method, on every branch\<close>

text \<open>
  Each lemma fixes what the client call returns and gives the method's whole
  result: the value, the wrapped error, and the world after it.
\<close>

lemma s3_Store_ok:
  assumes "put_call api s fname r sz w = ((n, None), n', d)"
  shows "s3_Store api s fname r sz w =
    ((\<lparr>FullPath = fname, FileInfo.Bucket = Credentials.Bucket (creds s),
       FileInfo.Region = Credentials.Region (creds s),
       MimeType = mime_TypeByExtension (mime w) (filepath_Ext fname),
       Size = n, CreatedAt = clock w + d\<rparr>, None), w\<lparr>net := n', clock := clock w + d\<rparr>)"
  using assms by (simp add: s3_Store_def run_net_def)

lemma s3_Store_err:
  assumes "put_call api s fname r sz w = ((n, Some e), n', d)"
  shows "s3_Store api s fname r sz w =
    ((zero_FileInfo, Some (errors_Wrap e (''failed to store file '' @ quoted fname))),
     w\<lparr>net := n', clock := clock w + d\<rparr>)"
  using assms by (simp add: s3_Store_def run_net_def)

lemma s3_Store_cases:
  "\<exists>n err n' d. put_call api s fname r sz w = ((n, err), n', d)"
  by (metis prod.exhaust)

lemma s3_Delete_result:
  assumes "RemoveObject api (client s) (Credentials.Bucket (creds s)) fname (net w) = (err, n', d)"
  shows "s3_Delete api s fname w =
    (map_option (\<lambda>e. errors_Wrap e (''cannot delete '' @ quoted fname)) err,
     w\<lparr>net := n', clock := clock w + d\<rparr>)"
  using assms by (cases err) (simp_all add: s3_Delete_def run_net_def)

lemma s3_GetPublicURL_result:
  assumes "PresignedGetObject api (client s) (Credentials.Bucket (creds s)) fname (time_Hour * 24)
      [(''response-content-disposition'', [cd_header (filepath_Base fname)])] (net w) = ((u, err), n', d)"
  shows "s3_GetPublicURL api s fname w =
    ((case err of None \<Rightarrow> (u, None)
      | Some e \<Rightarrow> (None, Some (errors_Wrap e (''unable to get S3 pre-signed URL for file '' @ quoted fname)))),
     w\<lparr>net := n', clock := clock w + d\<rparr>)"
  using assms by (cases err) (simp_all add: s3_GetPublicURL_def run_net_def)

lemma expiry_bounds: "sint (time_Hour * 24) = 86400 * 10 ^ 9 \<and> unat (time_Hour * 24) = 86400 * 10 ^ 9"
  by (simp add: time_Hour_def)

lemma s3_NewService_ok:
  assumes "minio_New api (Endpoint cr) (ClientID cr) (ClientSecret cr) (UseSSL cr) = (cl, None)"
    and "BucketExists api cl (Credentials.Bucket cr) (net w) = ((True, None), n', d)"
  shows "s3_NewService api cr w = ((Some \<lparr>creds = cr, client = cl\<rparr>, None), w\<lparr>net := n', clock := clock w + d\<rparr>)"
  using assms by (simp add: s3_NewService_def run_net_def)

lemma s3_NewService_not_exists:
  assumes "minio_New api (Endpoint cr) (ClientID cr) (ClientSecret cr) (UseSSL cr) = (cl, None)"
    and "BucketExists api cl (Credentials.Bucket cr) (net w) = ((False, None), n', d)"
  shows "s3_NewService api cr w = ((None, Some (errors_Wrap ErrBucketNotExists (''bucket '' @ Credentials.Bucket cr))),
           w\<lparr>net := n', clock := clock w + d\<rparr>)"
  using assms by (simp add: s3_NewService_def run_net_def)

lemma s3_NewService_bucket_error:
  assumes "minio_New api (Endpoint cr) (ClientID cr) (ClientSecret cr) (UseSSL cr) = (cl, None)"
    and "BucketExists api cl (Credentials.Bucket cr) (net w) = ((b, Some e), n', d)"
  shows "s3_NewService api cr w = ((None, Some (errors_Wrap e ''bucket error'')), w\<lparr>net := n', clock := clock w + d\<rparr>)"
  using assms by (simp add: s3_NewService_def run_net_def)

lemma s3_NewService_exclusive:
  "fst (s3_NewService api cr w) = (p, err) \<Longrightarrow> (p = None) = (err \<noteq> None)"
  by (auto simp: s3_NewService_def run_net_def Let_def split: prod.splits option.splits if_splits)

lemma s3_frames [simp]:
  "logs (snd (s3_Store api s f r sz w)) = logs w"
  "logs (snd (s3_Delete api s f w)) = logs w"
  "logs (snd (s3_GetPublicURL api s f w)) = logs w"
  "logs (snd (s3_NewService api cr w)) = logs w"
  by (auto simp: s3_defs run_net_def Let_def split: prod.splits option.splits)

lemma s3_clock_mono:
  "clock w \<le> clock (snd (s3_Store api s f r sz w))"
  "clock w \<le> clock (snd (s3_Delete api s f w))"
  "clock w \<le> clock (snd (s3_GetPublicURL api s f w))"
  by (auto simp: s3_defs run_net_def Let_def split: prod.splits option.splits)

text \<open>The backend reads the network, the clock and the MIME tables, never the log.\<close>

lemma s3_logs_independent:
  "s3_Store api s f r sz (w\<lparr>logs := L\<rparr>) = (fst (s3_Store api s f r sz w), (snd (s3_Store api s f r sz w))\<lparr>logs := L\<rparr>)"
  "s3_Delete api s f (w\<lparr>logs := L\<rparr>) = (fst (s3_Delete api s f w), (snd (s3_Delete api s f w))\<lparr>logs := L\<rparr>)"
  "s3_GetPublicURL api s f (w\<lparr>logs := L\<rparr>) =
     (fst (s3_GetPublicURL api s f w), (snd (s3_GetPublicURL api s f w))\<lparr>logs := L\<rparr>)"
  by (auto simp: s3_defs run_net_def Let_def split: prod.splits option.splits)

section \<open>Properties of the S3 backend\<close>

text \<open>C12: A successful Store returns the FileInfo the code builds: the key as FullPath, bucket and region from the credentials, the MIME type of the extension, the size the backend reports, and as creation time the clock after the upload, which is not before the call began.\<close>

theorem s3_Store_success:
  assumes "fst (put_call api s fname r sz w) = (n, None)"
  shows "fst (s3_Store api s fname r sz w) =
      (\<lparr>FullPath = fname, FileInfo.Bucket = Credentials.Bucket (creds s),
        FileInfo.Region = Credentials.Region (creds s),
        MimeType = mime_TypeByExtension (mime w) (filepath_Ext fname), Size = n,
        CreatedAt = clock (snd (s3_Store api s fname r sz w))\<rparr>, None)
    \<and> clock w \<le> clock (snd (s3_Store api s fname r sz w))"
proof -
  obtain n' d where "put_call api s fname r sz w = ((n, None), n', d)"
    using assms by (metis prod.collapse)
  then show ?thesis by (simp add: s3_Store_ok)
qed

text \<open>C13: A failed upload makes Store return the zero FileInfo and the backend error wrapped with "failed to store file '<name>'"; the message is that prefix, ": " and the backend message, and the root cause is the backend error.\<close>

theorem s3_Store_failure:
  assumes "fst (put_call api s fname r sz w) = (n, Some e)"
  shows "fst (s3_Store api s fname r sz w) =
      (zero_FileInfo, Some (errors_Wrap e (''failed to store file '' @ quoted fname)))
    \<and> Error (errors_Wrap e (''failed to store file '' @ quoted fname)) =
        ''failed to store file '' @ quoted fname @ '': '' @ Error e
    \<and> Cause (errors_Wrap e (''failed to store file '' @ quoted fname)) = Cause e"
proof -
  obtain n' d where "put_call api s fname r sz w = ((n, Some e), n', d)"
    using assms by (metis prod.collapse)
  then show ?thesis by (simp add: s3_Store_err)
qed

text \<open>C14: Whatever the client does, Store never returns a partial FileInfo with an error: every error result comes with the zero value and is a wrap of a backend error with the store context.\<close>

theorem s3_Store_no_partial_result:
  assumes "fst (s3_Store api s fname r sz w) = (fi, Some e)"
  shows "fi = zero_FileInfo \<and> (\<exists>e0. e = errors_Wrap e0 (''failed to store file '' @ quoted fname))"
proof -
  obtain n err n' d where c: "put_call api s fname r sz w = ((n, err), n', d)"
    using s3_Store_cases [of api s fname r sz w] by blast
  then show ?thesis using assms
    by (cases err) (auto simp add: s3_Store_ok s3_Store_err)
qed

text \<open>C15: Delete returns nil exactly when RemoveObject does, and otherwise the RemoveObject error wrapped with "cannot delete '<name>'": no error is swallowed or invented.\<close>

theorem s3_Delete_propagates:
  "fst (s3_Delete api s fname w) =
     map_option (\<lambda>e. errors_Wrap e (''cannot delete '' @ quoted fname))
       (fst (run_net (RemoveObject api (client s) (Credentials.Bucket (creds s)) fname) w))"
proof -
  obtain err n' d where "RemoveObject api (client s) (Credentials.Bucket (creds s)) fname (net w) = (err, n', d)"
    by (metis prod.exhaust)
  then show ?thesis by (simp add: s3_Delete_result run_net_def)
qed

text \<open>C16: GetPublicURL asks the client for a URL of the configured bucket and key, valid for time.Hour*24 (86400 seconds, no int64 overflow), with the response-content-disposition attachment header naming the base name of the key, which is non-empty and holds no separator unless the key is all separators; on error it returns a nil URL and the error wrapped with the pre-signed URL context.\<close>

theorem s3_GetPublicURL_request:
  "s3_GetPublicURL api s fname w =
     (case run_net (PresignedGetObject api (client s) (Credentials.Bucket (creds s)) fname (time_Hour * 24)
              [(''response-content-disposition'', [cd_header (filepath_Base fname)])]) w of
        ((u, None), w1) \<Rightarrow> ((u, None), w1)
      | ((u, Some e), w1) \<Rightarrow>
          ((None, Some (errors_Wrap e (''unable to get S3 pre-signed URL for file '' @ quoted fname))), w1))
   \<and> sint (time_Hour * 24) = 86400 * 10 ^ 9
   \<and> filepath_Base fname \<noteq> [] \<and> (slash \<notin> set (filepath_Base fname) \<or> filepath_Base fname = [slash])"
proof -
  obtain u err n' d where c: "PresignedGetObject api (client s) (Credentials.Bucket (creds s)) fname (time_Hour * 24)
      [(''response-content-disposition'', [cd_header (filepath_Base fname)])] (net w) = ((u, err), n', d)"
    by (metis prod.exhaust)
  have "s3_GetPublicURL api s fname w = (case run_net (PresignedGetObject api (client s) (Credentials.Bucket (creds s)) fname (time_Hour * 24)
              [(''response-content-disposition'', [cd_header (filepath_Base fname)])]) w of
        ((u, None), w1) \<Rightarrow> ((u, None), w1)
      | ((u, Some e), w1) \<Rightarrow>
          ((None, Some (errors_Wrap e (''unable to get S3 pre-signed URL for file '' @ quoted fname))), w1))"
    using s3_GetPublicURL_result [OF c] c by (cases err) (simp_all add: run_net_def)
  then show ?thesis
    using expiry_bounds filepath_Base_shape [of fname] by blast
qed

text \<open>C17: When the bucket check succeeds but reports no bucket, NewService fails with an error that still matches the ErrBucketNotExists sentinel through errors.Is and reads "bucket <name>: bucket doesn't exist".\<close>

theorem s3_NewService_bucket_not_exists:
  assumes "minio_New api (Endpoint cr) (ClientID cr) (ClientSecret cr) (UseSSL cr) = (cl, None)"
    and "fst (run_net (BucketExists api cl (Credentials.Bucket cr)) w) = (False, None)"
  shows "\<exists>e. fst (s3_NewService api cr w) = (None, Some e) \<and> Is e ErrBucketNotExists
           \<and> Error e = ''bucket '' @ Credentials.Bucket cr @ '': '' @ Error ErrBucketNotExists"
proof -
  obtain n' d where "BucketExists api cl (Credentials.Bucket cr) (net w) = ((False, None), n', d)"
    using assms(2) by (cases "BucketExists api cl (Credentials.Bucket cr) (net w)") auto
  with assms(1) show ?thesis
    by (simp add: s3_NewService_not_exists ErrBucketNotExists_def errors_New_def)
qed

text \<open>C18: When the client is built and the bucket exists, NewService returns a service holding exactly the credentials and the client, with no error, in the world after the bucket check.\<close>

theorem s3_NewService_success:
  assumes "minio_New api (Endpoint cr) (ClientID cr) (ClientSecret cr) (UseSSL cr) = (cl, None)"
    and "fst (run_net (BucketExists api cl (Credentials.Bucket cr)) w) = (True, None)"
  shows "s3_NewService api cr w =
           ((Some \<lparr>creds = cr, client = cl\<rparr>, None), snd (run_net (BucketExists api cl (Credentials.Bucket cr)) w))"
proof -
  obtain n' d where "BucketExists api cl (Credentials.Bucket cr) (net w) = ((True, None), n', d)"
    using assms(2) by (cases "BucketExists api cl (Credentials.Bucket cr) (net w)") auto
  with assms(1) show ?thesis
    by (simp add: s3_NewService_ok run_net_def)
qed

text \<open>C19: When the client cannot be built, NewService returns no service and the error wrapped with "cannot create s3 client", without any network call (the world is unchanged).\<close>

theorem s3_NewService_fail_fast:
  assumes "minio_New api (Endpoint cr) (ClientID cr) (ClientSecret cr) (UseSSL cr) = (cl, Some e)"
  shows "s3_NewService api cr w = ((None, Some (errors_Wrap e ''cannot create s3 client'')), w)"
  using assms by (simp add: s3_NewService_def)

end
