(* ===== verification/Logging.thy ===== *)
theory Logging
  imports Schema
begin

text \<open>
  The logging middleware, \<open>logging.go\<close>. A \<open>loggingMiddleware\<close> holds a logger
  and the next service; each method records the clock, calls the next service,
  and in a deferred function logs one line built from the named results. The
  methods are stated over the next service's method, of the interface's type,
  so every lemma here holds whatever the next service is.

  Go's \<open>defer\<close> runs the logging also when the next service panics: the named
  results are then still their zero values, and the panic goes on after the line
  is written. A nil logger makes the deferred call itself panic.
\<close>

section \<open>The deferred call\<close>

text \<open>The named results as the deferred function reads them.\<close>

primrec named_results :: "'a \<Rightarrow> 'a outcome \<Rightarrow> 'a" where
  "named_results z (Normal v) = v"
| "named_results z (Panicked m) = z"

definition deferred_log :: "logger option \<Rightarrow> (string \<times> log_val) list \<Rightarrow> 'a outcome \<Rightarrow> ('a, 'n) op" where
  "deferred_log lg kv res w =
     (case lg of None \<Rightarrow> (Panicked nil_deref, w) | Some l \<Rightarrow> (res, log_append l kv w))"

text \<open>\<open>time.Since(begin)\<close>, in nanoseconds.\<close>

definition took :: "'n world \<Rightarrow> 'n world \<Rightarrow> int" where
  "took w0 w1 = int (clock w1) - int (clock w0)"

section \<open>logging.go\<close>

definition store_keyvals :: "string \<Rightarrow> FileInfo \<Rightarrow> gerror option \<Rightarrow> int \<Rightarrow> (string \<times> log_val) list" where
  "store_keyvals fname fi err d =
     [(''method'', LStr ''files.Store''), (''fname'', LStr fname), (''size'', LInt (Size fi)),
      (''mimetype'', LStr (MimeType fi)), (''err'', LErr err), (''took'', LDur d)]"

definition mw_Store :: "logger option \<Rightarrow> 'n store_fn \<Rightarrow> 'n store_fn" where
  "mw_Store lg next fname r sz w0 =
     (let (res, w1) = next fname r sz w0;
          (fi, err) = named_results (zero_FileInfo, None) res
      in deferred_log lg (store_keyvals fname fi err (took w0 w1)) res w1)"

definition delete_keyvals :: "string \<Rightarrow> gerror option \<Rightarrow> int \<Rightarrow> (string \<times> log_val) list" where
  "delete_keyvals fname err d =
     [(''method'', LStr ''files.Delete''), (''fname'', LStr fname), (''err'', LErr err), (''took'', LDur d)]"

definition mw_Delete :: "logger option \<Rightarrow> 'n delete_fn \<Rightarrow> 'n delete_fn" where
  "mw_Delete lg next fname w0 =
     (let (res, w1) = next fname w0;
          err = named_results None res
      in deferred_log lg (delete_keyvals fname err (took w0 w1)) res w1)"

definition url_keyvals :: "string \<Rightarrow> url option \<Rightarrow> gerror option \<Rightarrow> int \<Rightarrow> (string \<times> log_val) list" where
  "url_keyvals fname u err d =
     [(''method'', LStr ''files.GetPublicURL''), (''fname'', LStr fname), (''url'', LURL u),
      (''err'', LErr err), (''took'', LDur d)]"

definition mw_GetPublicURL :: "logger option \<Rightarrow> 'n url_fn \<Rightarrow> 'n url_fn" where
  "mw_GetPublicURL lg next fname w0 =
     (let (res, w1) = next fname w0;
          (u, err) = named_results (None, None) res
      in deferred_log lg (url_keyvals fname u err (took w0 w1)) res w1)"

lemmas mw_defs [go_defs] = mw_Store_def mw_Delete_def mw_GetPublicURL_def

section \<open>One line per call, results untouched\<close>

lemma deferred_log_Some [simp]:
  "deferred_log (Some l) kv res w = (res, log_append l kv w)"
  by (simp add: deferred_log_def)

lemma deferred_log_None [simp]:
  "deferred_log None kv res w = (Panicked nil_deref, w)"
  by (simp add: deferred_log_def)

lemma mw_Store_run:
  assumes "next fname r sz w = (res, w1)"
  shows "mw_Store lg next fname r sz w =
    deferred_log lg (store_keyvals fname (fst (named_results (zero_FileInfo, None) res))
                       (snd (named_results (zero_FileInfo, None) res)) (took w w1)) res w1"
  using assms by (simp add: mw_Store_def split: prod.splits)

lemma mw_Delete_run:
  assumes "next fname w = (res, w1)"
  shows "mw_Delete lg next fname w =
    deferred_log lg (delete_keyvals fname (named_results None res) (took w w1)) res w1"
  using assms by (simp add: mw_Delete_def)

lemma mw_GetPublicURL_run:
  assumes "next fname w = (res, w1)"
  shows "mw_GetPublicURL lg next fname w =
    deferred_log lg (url_keyvals fname (fst (named_results (None, None) res))
                       (snd (named_results (None, None) res)) (took w w1)) res w1"
  using assms by (simp add: mw_GetPublicURL_def split: prod.splits)

section \<open>Properties of the middleware\<close>

text \<open>C8: Over any next service that returns, the middleware returns its results unchanged and appends exactly one line to its logger: method files.Store, the file name, the size and MIME type of the result, the error, and the time the next service took.\<close>

theorem mw_Store_logged:
  assumes "next fname r sz w = (Normal (fi, err), w1)"
  shows "mw_Store (Some l) next fname r sz w =
    (Normal (fi, err), w1\<lparr>logs := logs w1 @ [(l, store_keyvals fname fi err (took w w1))]\<rparr>)"
  using assms by (simp add: mw_Store_def log_append_def)

text \<open>C9: When the next service panics, the deferred logging still writes its one line, with the zero FileInfo and no error, and the panic propagates: a panicking call is logged as if it had succeeded with an empty result.\<close>

theorem mw_Store_panic_logged:
  assumes "next fname r sz w = (Panicked m, w1)"
  shows "mw_Store (Some l) next fname r sz w =
    (Panicked m, w1\<lparr>logs := logs w1 @ [(l, store_keyvals fname zero_FileInfo None (took w w1))]\<rparr>)"
  using assms by (simp add: mw_Store_def log_append_def)

text \<open>C10: Delete through the middleware has the outcome of the next service and appends exactly one line with method files.Delete, the file name, the error (nil after a panic) and the time taken.\<close>

theorem mw_Delete_logged:
  assumes "next fname w = (res, w1)"
  shows "mw_Delete (Some l) next fname w =
    (res, w1\<lparr>logs := logs w1 @ [(l, delete_keyvals fname (named_results None res) (took w w1))]\<rparr>)"
  using assms by (simp add: mw_Delete_def log_append_def)

text \<open>C11: GetPublicURL through the middleware returns the next service's URL and error unchanged and appends exactly one line with method files.GetPublicURL, the file name, the URL, the error and the time taken.\<close>

theorem mw_GetPublicURL_logged:
  assumes "next fname w = (Normal (u, err), w1)"
  shows "mw_GetPublicURL (Some l) next fname w =
    (Normal (u, err), w1\<lparr>logs := logs w1 @ [(l, url_keyvals fname u err (took w w1))]\<rparr>)"
  using assms by (simp add: mw_GetPublicURL_def log_append_def)

end
