(* ===== verification/Service.thy ===== *)
theory Service
  imports S3 Logging
begin

text \<open>
  Interface values of \<open>schema.Service\<close> and the factory of \<open>service.go\<close>.
  A Go interface value is nil, or a pair of a dynamic type and a pointer of that
  type. The program stores two dynamic types in it: \<open>*s3.Service\<close>, whose
  pointer may itself be nil (a \<^emph>\<open>typed nil\<close>, which is not a nil interface), and
  \<open>*loggingMiddleware\<close>, always built non-nil by the factory, whose logger may
  be nil and whose next service is again an interface value. Calling a method on
  a nil interface or on a nil \<open>*s3.Service\<close> panics with a nil dereference
  before it does anything.
\<close>

section \<open>Interface values and method dispatch\<close>

datatype 'c service =
    IfaceNil
  | IfaceS3 "'c S3Service option"
  | IfaceLogging "logger option" "'c service"

text \<open>\<open>svc == nil\<close>: only the nil interface; a typed nil is not nil.\<close>

primrec iface_is_nil :: "'c service \<Rightarrow> bool" where
  "iface_is_nil IfaceNil = True"
| "iface_is_nil (IfaceS3 p) = False"
| "iface_is_nil (IfaceLogging lg nx) = False"

definition normal_ret :: "'a \<times> 'n world \<Rightarrow> 'a outcome \<times> 'n world" where
  "normal_ret rw = (Normal (fst rw), snd rw)"

definition nil_call :: "('a, 'n) op" where
  "nil_call w = (Panicked nil_deref, w)"

primrec svc_Store :: "('c, 'n) minio_api \<Rightarrow> 'c service \<Rightarrow> 'n store_fn" where
  "svc_Store api IfaceNil = (\<lambda>f r sz. nil_call)"
| "svc_Store api (IfaceS3 p) =
     (case p of None \<Rightarrow> (\<lambda>f r sz. nil_call) | Some s \<Rightarrow> (\<lambda>f r sz w. normal_ret (s3_Store api s f r sz w)))"
| "svc_Store api (IfaceLogging lg nx) = mw_Store lg (svc_Store api nx)"

primrec svc_Delete :: "('c, 'n) minio_api \<Rightarrow> 'c service \<Rightarrow> 'n delete_fn" where
  "svc_Delete api IfaceNil = (\<lambda>f. nil_call)"
| "svc_Delete api (IfaceS3 p) =
     (case p of None \<Rightarrow> (\<lambda>f. nil_call) | Some s \<Rightarrow> (\<lambda>f w. normal_ret (s3_Delete api s f w)))"
| "svc_Delete api (IfaceLogging lg nx) = mw_Delete lg (svc_Delete api nx)"

primrec svc_GetPublicURL :: "('c, 'n) minio_api \<Rightarrow> 'c service \<Rightarrow> 'n url_fn" where
  "svc_GetPublicURL api IfaceNil = (\<lambda>f. nil_call)"
| "svc_GetPublicURL api (IfaceS3 p) =
     (case p of None \<Rightarrow> (\<lambda>f. nil_call) | Some s \<Rightarrow> (\<lambda>f w. normal_ret (s3_GetPublicURL api s f w)))"
| "svc_GetPublicURL api (IfaceLogging lg nx) = mw_GetPublicURL lg (svc_GetPublicURL api nx)"

section \<open>service.go: the factory\<close>

definition ErrUnsupportedType :: gerror where
  "ErrUnsupportedType = errors_New Site_ErrUnsupportedType ''the given service type is unsupported''"

text \<open>
  \<^verbatim>\<open>if typ == "s3" { svc, err = s3.NewService(creds) }
  if svc == nil { err = errors.Wrapf(ErrUnsupportedType, "service '%s' unsupported", typ); return }
  if logger != nil { svc = &loggingMiddleware{logger, svc} }
  return\<close>
  The assignment of the \<open>*s3.Service\<close> result to the interface-typed \<open>svc\<close>
  makes \<open>svc\<close> non-nil even when that pointer is nil.
\<close>

definition NewService :: "('c, 'n) minio_api \<Rightarrow> string \<Rightarrow> Credentials \<Rightarrow> logger option \<Rightarrow>
    'n world \<Rightarrow> ('c service \<times> gerror option) \<times> 'n world" where
  "NewService api typ cr lg w =
     (let ((svc, err), w1) =
            (if typ = ''s3''
             then (case s3_NewService api cr w of ((p, e), w') \<Rightarrow> ((IfaceS3 p, e), w'))
             else ((IfaceNil, None), w))
      in if iface_is_nil svc
         then ((svc, Some (errors_Wrapf ErrUnsupportedType (''service '' @ quoted typ @ '' unsupported''))), w1)
         else ((case lg of None \<Rightarrow> svc | Some l \<Rightarrow> IfaceLogging lg svc, err), w1))"

section \<open>Calls through an interface value\<close>

text \<open>
  The three methods as one step function over a datatype of calls, so that
  properties of all of them, and of sequences of calls, are stated once.
\<close>

datatype call = CStore string reader int64 | CDelete string | CGetPublicURL string

datatype call_result =
    RStore "FileInfo \<times> gerror option"
  | RDelete "gerror option"
  | RGetPublicURL "url option \<times> gerror option"

definition lift_res :: "('a \<Rightarrow> call_result) \<Rightarrow> 'a outcome \<times> 'n world \<Rightarrow> call_result outcome \<times> 'n world" where
  "lift_res f rw = (map_outcome f (fst rw), snd rw)"

primrec svc_call :: "('c, 'n) minio_api \<Rightarrow> 'c service \<Rightarrow> call \<Rightarrow> (call_result, 'n) op" where
  "svc_call api svc (CStore f r sz) w = lift_res RStore (svc_Store api svc f r sz w)"
| "svc_call api svc (CDelete f) w = lift_res RDelete (svc_Delete api svc f w)"
| "svc_call api svc (CGetPublicURL f) w = lift_res RGetPublicURL (svc_GetPublicURL api svc f w)"

text \<open>A sequence of calls by one caller; a panic ends it, as it ends the goroutine.\<close>

primrec svc_run :: "('c, 'n) minio_api \<Rightarrow> 'c service \<Rightarrow> call list \<Rightarrow>
    'n world \<Rightarrow> call_result outcome list \<times> 'n world" where
  "svc_run api svc [] w = ([], w)"
| "svc_run api svc (c # cs) w =
     (case svc_call api svc c w of
        (Normal r, w1) \<Rightarrow> (case svc_run api svc cs w1 of (rs, w2) \<Rightarrow> (Normal r # rs, w2))
      | (Panicked m, w1) \<Rightarrow> ([Panicked m], w1))"

text \<open>The line a logging layer writes for a call, from the call's outcome.\<close>

primrec keyvals_of :: "call \<Rightarrow> call_result outcome \<Rightarrow> int \<Rightarrow> (string \<times> log_val) list" where
  "keyvals_of (CStore f r sz) res d =
     (case res of Normal (RStore (fi, e)) \<Rightarrow> store_keyvals f fi e d | _ \<Rightarrow> store_keyvals f zero_FileInfo None d)"
| "keyvals_of (CDelete f) res d =
     (case res of Normal (RDelete e) \<Rightarrow> delete_keyvals f e d | _ \<Rightarrow> delete_keyvals f None d)"
| "keyvals_of (CGetPublicURL f) res d =
     (case res of Normal (RGetPublicURL (u, e)) \<Rightarrow> url_keyvals f u e d | _ \<Rightarrow> url_keyvals f None None d)"

section \<open>Shape of a handle\<close>

text \<open>
  A handle is usable when no method call through it can reach a nil pointer:
  every logging layer has a logger and the innermost value is a non-nil
  \<open>*s3.Service\<close>. The logging layers that write are those with a logger;
  stripping them gives the undecorated handle.
\<close>

primrec handle_ok :: "'c service \<Rightarrow> bool" where
  "handle_ok IfaceNil = False"
| "handle_ok (IfaceS3 p) = (p \<noteq> None)"
| "handle_ok (IfaceLogging lg nx) = (lg \<noteq> None \<and> handle_ok nx)"

primrec log_layers :: "'c service \<Rightarrow> nat" where
  "log_layers IfaceNil = 0"
| "log_layers (IfaceS3 p) = 0"
| "log_layers (IfaceLogging lg nx) = (if lg = None then 0 else 1) + log_layers nx"

text \<open>The shapes the factory builds: the nil interface, a (possibly typed-nil)
  \<open>*s3.Service\<close>, or one middleware with a logger around a \<open>*s3.Service\<close>.\<close>

primrec handle_shape :: "'c service \<Rightarrow> bool" where
  "handle_shape IfaceNil = True"
| "handle_shape (IfaceS3 p) = True"
| "handle_shape (IfaceLogging lg nx) = (lg \<noteq> None \<and> (case nx of IfaceS3 p \<Rightarrow> True | _ \<Rightarrow> False))"

primrec undecorate :: "'c service \<Rightarrow> 'c service" where
  "undecorate IfaceNil = IfaceNil"
| "undecorate (IfaceS3 p) = IfaceS3 p"
| "undecorate (IfaceLogging lg nx) = (if lg = None then IfaceLogging lg (undecorate nx) else undecorate nx)"

section \<open>One logging layer, over any call\<close>

lemma lift_res_deferred:
  "lift_res g (deferred_log lg kv res w) = deferred_log lg kv (map_outcome g res) w"
  by (cases lg) (simp_all add: lift_res_def)

lemma svc_call_logging:
  "svc_call api (IfaceLogging lg nx) c w =
     (case svc_call api nx c w of (res, w1) \<Rightarrow> deferred_log lg (keyvals_of c res (took w w1)) res w1)"
proof (cases c)
  case (CStore f r sz)
  obtain res w1 where "svc_Store api nx f r sz w = (res, w1)" by fastforce
  with CStore show ?thesis
    by (cases res) (auto simp: mw_Store_run lift_res_def lift_res_deferred [unfolded lift_res_def])
next
  case (CDelete f)
  obtain res w1 where "svc_Delete api nx f w = (res, w1)" by fastforce
  with CDelete show ?thesis
    by (cases res) (auto simp: mw_Delete_run lift_res_def lift_res_deferred [unfolded lift_res_def])
next
  case (CGetPublicURL f)
  obtain res w1 where "svc_GetPublicURL api nx f w = (res, w1)" by fastforce
  with CGetPublicURL show ?thesis
    by (cases res) (auto simp: mw_GetPublicURL_run lift_res_def lift_res_deferred [unfolded lift_res_def])
qed

lemma svc_call_nil [simp]:
  "svc_call api IfaceNil c w = (Panicked nil_deref, w)"
  "svc_call api (IfaceS3 None) c w = (Panicked nil_deref, w)"
  by (cases c; simp add: lift_res_def nil_call_def)+


section \<open>Handles: panics, log lines, the clock, decoration\<close>

lemma svc_call_s3:
  "\<exists>r. fst (svc_call api (IfaceS3 (Some s)) c w) = Normal r"
  "logs (snd (svc_call api (IfaceS3 (Some s)) c w)) = logs w"
  "clock w \<le> clock (snd (svc_call api (IfaceS3 (Some s)) c w))"
  by (cases c; simp add: lift_res_def normal_ret_def s3_clock_mono)+

text \<open>The log grows by one line per layer with a logger: the induction behind the
  line counts of single calls and of runs.\<close>

lemma svc_call_logs_length:
  "length (logs (snd (svc_call api svc c w))) = length (logs w) + log_layers svc"
proof (induction svc arbitrary: w)
  case IfaceNil
  then show ?case by simp
next
  case (IfaceS3 p)
  then show ?case by (cases p) (simp_all add: svc_call_s3)
next
  case (IfaceLogging lg nx)
  obtain res w1 where "svc_call api nx c w = (res, w1)" by fastforce
  with IfaceLogging.IH [of w] show ?case
    by (cases lg) (auto simp: svc_call_logging)
qed

text \<open>C6: Every call through a handle appends exactly one log line per logging layer that has a logger, whatever the call and whatever its outcome: stacking decorators logs once per layer.\<close>

theorem svc_call_log_count:
  "length (logs (snd (svc_call api svc c w))) = length (logs w) + log_layers svc"
  by (rule svc_call_logs_length)

text \<open>Which handles return: the induction behind the panic claims for single calls
  and for concurrent callers.\<close>

lemma svc_call_returns_iff:
  "(\<exists>r. fst (svc_call api svc c w) = Normal r) \<longleftrightarrow> handle_ok svc"
proof (induction svc arbitrary: w)
  case IfaceNil
  then show ?case by simp
next
  case (IfaceS3 p)
  then show ?case by (cases p) (simp_all add: svc_call_s3)
next
  case (IfaceLogging lg nx)
  obtain res w1 where "svc_call api nx c w = (res, w1)" by fastforce
  with IfaceLogging.IH [of w] show ?case
    by (cases lg) (auto simp: svc_call_logging)
qed

text \<open>C7: A call through a handle returns normally exactly when the handle is usable: every logging layer has a logger and the innermost value is a non-nil *s3.Service; otherwise every call panics.\<close>

theorem svc_call_normal_iff:
  "(\<exists>r. fst (svc_call api svc c w) = Normal r) \<longleftrightarrow> handle_ok svc"
  by (rule svc_call_returns_iff)

lemma svc_call_undecorate:
  "svc_call api (undecorate svc) c (w\<lparr>logs := L\<rparr>) =
     (fst (svc_call api svc c w), (snd (svc_call api svc c w))\<lparr>logs := L\<rparr>)"
proof (induction svc arbitrary: w)
  case IfaceNil
  then show ?case by simp
next
  case (IfaceS3 p)
  show ?case
  proof (cases p)
    case None
    then show ?thesis by simp
  next
    case (Some s)
    then show ?thesis
      by (cases c) (simp_all add: lift_res_def normal_ret_def s3_logs_independent)
  qed
next
  case (IfaceLogging lg nx)
  obtain res w1 where "svc_call api nx c w = (res, w1)" by fastforce
  with IfaceLogging.IH [of w] show ?case
    by (cases lg) (auto simp: svc_call_logging log_append_def)
qed

lemma svc_call_world_mono:
  "clock w \<le> clock (snd (svc_call api svc c w)) \<and> (\<exists>new. logs (snd (svc_call api svc c w)) = logs w @ new)"
proof (induction svc arbitrary: w)
  case IfaceNil
  then show ?case by simp
next
  case (IfaceS3 p)
  then show ?case by (cases p) (simp_all add: svc_call_s3)
next
  case (IfaceLogging lg nx)
  obtain res w1 where "svc_call api nx c w = (res, w1)" by fastforce
  with IfaceLogging.IH [of w] show ?case
    by (cases lg) (auto simp: svc_call_logging)
qed

lemma NewService_unsupported:
  "typ \<noteq> ''s3'' \<Longrightarrow> NewService api typ cr lg w =
     ((IfaceNil, Some (errors_Wrap ErrUnsupportedType (''service '' @ quoted typ @ '' unsupported''))), w)"
  by (simp add: NewService_def)

lemma NewService_s3:
  "NewService api ''s3'' cr lg w =
     (case s3_NewService api cr w of ((p, e), w') \<Rightarrow>
        ((case lg of None \<Rightarrow> IfaceS3 p | Some l \<Rightarrow> IfaceLogging lg (IfaceS3 p), e), w'))"
  by (simp add: NewService_def split: prod.splits)

text \<open>C3: The factory returns no error exactly when the handle it returns is usable; with an error the handle, nil or not, panics on every call.\<close>

theorem NewService_handle_ok:
  "fst (NewService api typ cr lg w) = (svc, err) \<Longrightarrow> (err = None \<longleftrightarrow> handle_ok svc)"
proof (cases "typ = ''s3''")
  case True
  assume res: "fst (NewService api typ cr lg w) = (svc, err)"
  obtain p e w' where s3: "s3_NewService api cr w = ((p, e), w')" by (metis prod.exhaust)
  then have "(p = None) = (e \<noteq> None)" using s3_NewService_exclusive [of api cr w p e] by simp
  with True res s3 show ?thesis by (cases lg) (auto simp: NewService_s3)
next
  case False
  assume "fst (NewService api typ cr lg w) = (svc, err)"
  with False show ?thesis by (auto simp: NewService_unsupported)
qed

section \<open>Properties of the factory\<close>

text \<open>C1: Any type other than "s3" gives a nil handle and an error that matches the ErrUnsupportedType sentinel (and not ErrBucketNotExists) and reads "service '<typ>' unsupported: the given service type is unsupported", with no effect on the world.\<close>

theorem NewService_unsupported_type:
  assumes "typ \<noteq> ''s3''"
  shows "\<exists>e. NewService api typ cr lg w = ((IfaceNil, Some e), w)
           \<and> Is e ErrUnsupportedType \<and> \<not> Is e ErrBucketNotExists
           \<and> Error e = ''service '' @ quoted typ @ '' unsupported: '' @ Error ErrUnsupportedType"
  using assms
  by (simp add: NewService_unsupported ErrUnsupportedType_def ErrBucketNotExists_def errors_New_def)

text \<open>C2: When the S3 backend cannot be built and a logger is given, the factory returns a non-nil handle (the middleware around a typed-nil *s3.Service) together with the error, and every call through that handle panics.\<close>

theorem NewService_typed_nil_handle:
  assumes "snd (fst (s3_NewService api cr w)) = Some e"
  shows "fst (NewService api ''s3'' cr (Some l) w) = (IfaceLogging (Some l) (IfaceS3 None), Some e)
       \<and> \<not> iface_is_nil (IfaceLogging (Some l) (IfaceS3 None))
       \<and> (\<forall>c w'. fst (svc_call api (IfaceLogging (Some l) (IfaceS3 None)) c w') = Panicked nil_deref)"
proof -
  obtain p w' where s3: "s3_NewService api cr w = ((p, Some e), w')"
    using assms by (metis prod.collapse)
  then have "p = None" using s3_NewService_exclusive [of api cr w p "Some e"] by simp
  with s3 have "fst (NewService api ''s3'' cr (Some l) w) = (IfaceLogging (Some l) (IfaceS3 None), Some e)"
    by (simp add: NewService_s3)
  moreover have "fst (svc_call api (IfaceLogging (Some l) (IfaceS3 None)) c w') = Panicked nil_deref" for c w'
    by (simp add: svc_call_logging)
  ultimately show ?thesis by simp
qed

text \<open>C4: When the S3 backend is built, the factory returns it bare without a logger and wrapped in exactly one logging middleware with a logger, and no error.\<close>

theorem NewService_wraps_backend:
  assumes "fst (s3_NewService api cr w) = (Some s, None)"
  shows "fst (NewService api ''s3'' cr lg w) =
     ((case lg of None \<Rightarrow> IfaceS3 (Some s) | Some l \<Rightarrow> IfaceLogging lg (IfaceS3 (Some s))), None)"
proof -
  obtain w' where "s3_NewService api cr w = ((Some s, None), w')"
    using assms by (metis prod.collapse)
  then show ?thesis by (cases lg) (simp_all add: NewService_s3)
qed

text \<open>C21: Every handle the factory returns has one of three shapes: the nil interface, an *s3.Service (possibly a typed nil), or exactly one logging middleware with a non-nil logger around an *s3.Service; in particular it never has more than one logging layer.\<close>

theorem NewService_shape:
  "handle_shape (fst (fst (NewService api typ cr lg w))) \<and> log_layers (fst (fst (NewService api typ cr lg w))) \<le> 1"
  by (auto simp: NewService_def Let_def split: prod.splits option.splits)

text \<open>C24: Every error the factory returns is of one of four kinds, each matchable by callers: an unsupported type (wrapping the sentinel ErrUnsupportedType), a failure to build the client (its error wrapped with "cannot create s3 client"), a failure of the bucket check (its error wrapped with "bucket error"), or a missing bucket (wrapping the sentinel ErrBucketNotExists with the bucket's name).\<close>

theorem NewService_error_kinds:
  assumes "snd (fst (NewService api typ cr lg w)) = Some e"
  shows "(typ \<noteq> ''s3'' \<and> e = errors_Wrap ErrUnsupportedType (''service '' @ quoted typ @ '' unsupported'')
          \<and> Is e ErrUnsupportedType)
    \<or> (\<exists>cl e0. minio_New api (Endpoint cr) (ClientID cr) (ClientSecret cr) (UseSSL cr) = (cl, Some e0)
          \<and> e = errors_Wrap e0 ''cannot create s3 client'')
    \<or> (\<exists>cl b e0. minio_New api (Endpoint cr) (ClientID cr) (ClientSecret cr) (UseSSL cr) = (cl, None)
          \<and> fst (BucketExists api cl (Credentials.Bucket cr) (net w)) = (b, Some e0)
          \<and> e = errors_Wrap e0 ''bucket error'')
    \<or> (\<exists>cl. minio_New api (Endpoint cr) (ClientID cr) (ClientSecret cr) (UseSSL cr) = (cl, None)
          \<and> fst (BucketExists api cl (Credentials.Bucket cr) (net w)) = (False, None)
          \<and> e = errors_Wrap ErrBucketNotExists (''bucket '' @ Credentials.Bucket cr)
          \<and> Is e ErrBucketNotExists)"
proof (cases "typ = ''s3''")
  case True
  with assms have "snd (fst (s3_NewService api cr w)) = Some e"
    by (cases lg) (auto simp: NewService_s3 split: prod.splits)
  then show ?thesis
    by (auto simp: s3_NewService_def run_net_def Let_def ErrBucketNotExists_def errors_New_def
        split: prod.splits option.splits if_splits)
next
  case False
  with assms have "e = errors_Wrap ErrUnsupportedType (''service '' @ quoted typ @ '' unsupported'')"
    by (simp add: NewService_unsupported)
  with False show ?thesis by (simp add: ErrUnsupportedType_def errors_New_def)
qed

end
