(* ===== verification/Callers.thy ===== *)
theory Callers
  imports Service
begin

text \<open>
  Concurrent callers sharing one handle (spec section 5). The factory's handle is
  an immutable value: a Go interface holding pointers that no method writes. Any
  number of goroutines may call through it; each runs its own list of calls in
  program order, and the scheduler interleaves them. The shared state is the world:
  the object store behind the network, the clock and the log sinks.

  A configuration holds each caller's remaining calls and the outcomes it has seen,
  the calls made so far in the order they ran, the world, and whether a panic has
  ended the process (an unrecovered panic in any goroutine stops the program). A
  step lets one caller that still has calls make its next one through the handle.
  Calls are atomic in this model: the backend's consistency model decides how
  overlapping requests to the store are ordered, and the spec leaves it to the
  backend, so every call is placed at one point of the interleaving.

  This system is the abstract side of the refinement proved in \<open>Overlap\<close>, where
  the middleware's own statements of concurrent calls interleave; the facts about
  single calls it would repeat are those of \<open>Service\<close>.
\<close>

section \<open>Configurations and steps\<close>

record 'n sys =
  queues :: "call list list"
  results :: "call_result outcome list list"
  trace :: "(nat \<times> call) list"
  wld :: "'n world"
  crashed :: bool

definition sys_init :: "call list list \<Rightarrow> 'n world \<Rightarrow> 'n sys" where
  "sys_init qs w =
     \<lparr>queues = qs, results = replicate (length qs) [], trace = [], wld = w, crashed = False\<rparr>"

primrec is_panic :: "'a outcome \<Rightarrow> bool" where
  "is_panic (Normal v) = False"
| "is_panic (Panicked m) = True"

text \<open>Caller \<open>i\<close> makes its next call through the handle.\<close>

definition call_by :: "('c, 'n) minio_api \<Rightarrow> 'c service \<Rightarrow> nat \<Rightarrow> 'n sys \<Rightarrow> 'n sys" where
  "call_by api svc i s =
     (case queues s ! i of
        [] \<Rightarrow> s
      | c # cs \<Rightarrow>
          (case svc_call api svc c (wld s) of (res, w') \<Rightarrow>
             s\<lparr>queues := (queues s)[i := cs], results := (results s)[i := results s ! i @ [res]],
               trace := trace s @ [(i, c)], wld := w', crashed := is_panic res\<rparr>))"

inductive sys_step :: "('c, 'n) minio_api \<Rightarrow> 'c service \<Rightarrow> 'n sys \<Rightarrow> 'n sys \<Rightarrow> bool"
  for api svc where
  call: "\<not> crashed s \<Longrightarrow> i < length (queues s) \<Longrightarrow> queues s ! i \<noteq> [] \<Longrightarrow>
     sys_step api svc s (call_by api svc i s)"

section \<open>The shape of a step\<close>

lemma call_by_Cons:
  assumes "queues s ! i = c # cs" and "svc_call api svc c (wld s) = (res, w')"
  shows "call_by api svc i s =
    s\<lparr>queues := (queues s)[i := cs], results := (results s)[i := results s ! i @ [res]],
      trace := trace s @ [(i, c)], wld := w', crashed := is_panic res\<rparr>"
  using assms by (simp add: call_by_def)

end
