(* ===== verification/Overlap.thy ===== *)
theory Overlap
  imports Callers
begin

text \<open>
  Overlapping calls through one logging middleware (\<open>logging.go\<close>), at the
  granularity of the middleware's own statements. A call of \<open>loggingMiddleware\<close>
  does three things at three moments, and other goroutines may run between them:
  \<^item> \<open>defer func(begin time.Time){...}(time.Now())\<close>: the deferred call's argument
    is evaluated at once, so the start time is read when the call begins;
  \<^item> \<open>fi, err = mw.next.Store(...)\<close>: the next service runs (atomically here, as in
    \<open>Callers\<close>);
  \<^item> the return runs the deferred function: it reads the clock again, computes
    \<open>time.Since(begin)\<close> and writes the line with the named results.
  A caller's phase records where its current call is: idle, begun at a time, or
  returned from the next service with its outcome. The configuration also keeps,
  for each finished call, the duration its deferred function computed and the time
  its own request to the next service took: a record of the run, read by the
  theorems, never by the steps.
\<close>

section \<open>Phases and configurations\<close>

datatype phase =
    Idle
  | Began time call
  | Returned time nat call "call_result outcome"

record 'n ovl =
  oqueues :: "call list list"
  phases :: "phase list"
  oresults :: "call_result outcome list list"
  otrace :: "(nat \<times> call) list"
  ofinished :: "(nat \<times> int \<times> nat) list"
  owld :: "'n world"
  ocrashed :: bool

definition ovl_init :: "call list list \<Rightarrow> 'n world \<Rightarrow> 'n ovl" where
  "ovl_init qs w =
     \<lparr>oqueues = qs, phases = replicate (length qs) Idle, oresults = replicate (length qs) [],
      otrace = [], ofinished = [], owld = w, ocrashed = False\<rparr>"

text \<open>The call begins: \<open>time.Now()\<close> is evaluated for the deferred function.\<close>

definition ovl_begin :: "nat \<Rightarrow> 'n ovl \<Rightarrow> 'n ovl" where
  "ovl_begin i s =
     (case oqueues s ! i of
        [] \<Rightarrow> s
      | c # cs \<Rightarrow> s\<lparr>oqueues := (oqueues s)[i := cs], phases := (phases s)[i := Began (clock (owld s)) c]\<rparr>)"

text \<open>\<open>mw.next\<close> is called; the phase keeps how long that request took.\<close>

definition ovl_inner :: "('c, 'n) minio_api \<Rightarrow> 'c service \<Rightarrow> nat \<Rightarrow> 'n ovl \<Rightarrow> 'n ovl" where
  "ovl_inner api nx i s =
     (case phases s ! i of
        Began b c \<Rightarrow>
          (case svc_call api nx c (owld s) of (res, w') \<Rightarrow>
             s\<lparr>phases := (phases s)[i := Returned b (clock w' - clock (owld s)) c res],
               otrace := otrace s @ [(i, c)], owld := w'\<rparr>)
      | _ \<Rightarrow> s)"

text \<open>The method returns and its deferred function logs, as \<open>deferred_log\<close> does for
  the atomic middleware, with the time since the call began.\<close>

definition ovl_finish :: "logger option \<Rightarrow> nat \<Rightarrow> 'n ovl \<Rightarrow> 'n ovl" where
  "ovl_finish lg i s =
     (case phases s ! i of
        Returned b d c res \<Rightarrow>
          (let took_ns = int (clock (owld s)) - int b
           in case deferred_log lg (keyvals_of c res took_ns) res (owld s) of (res', w') \<Rightarrow>
                s\<lparr>phases := (phases s)[i := Idle], oresults := (oresults s)[i := oresults s ! i @ [res']],
                  ofinished := ofinished s @ [(i, took_ns, d)], owld := w', ocrashed := is_panic res'\<rparr>)
      | _ \<Rightarrow> s)"

inductive ovl_step :: "('c, 'n) minio_api \<Rightarrow> logger option \<Rightarrow> 'c service \<Rightarrow> 'n ovl \<Rightarrow> 'n ovl \<Rightarrow> bool"
  for api lg nx where
  start: "\<not> ocrashed s \<Longrightarrow> i < length (oqueues s) \<Longrightarrow> phases s ! i = Idle \<Longrightarrow> oqueues s ! i \<noteq> [] \<Longrightarrow>
     ovl_step api lg nx s (ovl_begin i s)"
| inner: "\<not> ocrashed s \<Longrightarrow> i < length (phases s) \<Longrightarrow> phases s ! i = Began b c \<Longrightarrow>
     ovl_step api lg nx s (ovl_inner api nx i s)"
| finish: "\<not> ocrashed s \<Longrightarrow> i < length (phases s) \<Longrightarrow> phases s ! i = Returned b d c res \<Longrightarrow>
     ovl_step api lg nx s (ovl_finish lg i s)"

inductive_cases ovl_stepE: "ovl_step api lg nx s t"

section \<open>The atomic view\<close>

text \<open>
  A call that has begun is still pending in the atomic system; a call that has
  returned from the next service is done there, with the next service's outcome.
\<close>

primrec ph_queue :: "phase \<Rightarrow> call list \<Rightarrow> call list" where
  "ph_queue Idle q = q"
| "ph_queue (Began b c) q = c # q"
| "ph_queue (Returned b d c res) q = q"

primrec ph_results :: "phase \<Rightarrow> call_result outcome list \<Rightarrow> call_result outcome list" where
  "ph_results Idle rs = rs"
| "ph_results (Began b c) rs = rs"
| "ph_results (Returned b d c res) rs = rs @ [res]"

definition ovl_abs :: "'n ovl \<Rightarrow> 'n sys" where
  "ovl_abs s =
     \<lparr>queues = map2 ph_queue (phases s) (oqueues s), results = map2 ph_results (phases s) (oresults s),
      trace = otrace s, wld = (owld s)\<lparr>logs := []\<rparr>, crashed = ocrashed s\<rparr>"

text \<open>
  The invariant of overlapping runs from \<open>ovl_init qs w0\<close>: every call that has
  begun did so no later than now, and a call that has returned began at least its
  own request's time ago; every finished call logged a duration at least the time
  of its own request; the log holds the inner layers' lines for every request made
  and one line of this layer per finished call; and, for the atomic view, the lists
  keep their lengths.
\<close>

primrec ph_timely :: "time \<Rightarrow> phase \<Rightarrow> bool" where
  "ph_timely now Idle = True"
| "ph_timely now (Began b c) = (b \<le> now)"
| "ph_timely now (Returned b d c res) = (b + d \<le> now)"

definition ovl_inv :: "logger option \<Rightarrow> 'c service \<Rightarrow> call list list \<Rightarrow> 'n world \<Rightarrow> 'n ovl \<Rightarrow> bool" where
  "ovl_inv lg nx qs w0 s \<longleftrightarrow>
     length (oqueues s) = length qs \<and> length (phases s) = length qs \<and> length (oresults s) = length qs
     \<and> list_all (ph_timely (clock (owld s))) (phases s)
     \<and> list_all (\<lambda>(i, t, d). int d \<le> t) (ofinished s)
     \<and> clock w0 \<le> clock (owld s)
     \<and> length (logs (owld s)) = length (logs w0) + log_layers nx * length (otrace s)
                                 + (if lg = None then 0 else length (ofinished s))"

section \<open>The three kinds of step\<close>

lemma ovl_begin_Cons:
  "oqueues s ! i = c # cs \<Longrightarrow>
   ovl_begin i s = s\<lparr>oqueues := (oqueues s)[i := cs], phases := (phases s)[i := Began (clock (owld s)) c]\<rparr>"
  by (simp add: ovl_begin_def)

lemma ovl_inner_Began:
  "phases s ! i = Began b c \<Longrightarrow> svc_call api nx c (owld s) = (res, w') \<Longrightarrow>
   ovl_inner api nx i s =
     s\<lparr>phases := (phases s)[i := Returned b (clock w' - clock (owld s)) c res],
       otrace := otrace s @ [(i, c)], owld := w'\<rparr>"
  by (simp add: ovl_inner_def)

lemma ovl_finish_Returned:
  "phases s ! i = Returned b d c res \<Longrightarrow>
   deferred_log lg (keyvals_of c res (int (clock (owld s)) - int b)) res (owld s) = (res', w') \<Longrightarrow>
   ovl_finish lg i s =
     s\<lparr>phases := (phases s)[i := Idle], oresults := (oresults s)[i := oresults s ! i @ [res']],
       ofinished := ofinished s @ [(i, int (clock (owld s)) - int b, d)], owld := w',
       ocrashed := is_panic res'\<rparr>"
  by (simp add: ovl_finish_def)

lemma list_all_update:
  "list_all P xs \<Longrightarrow> P x \<Longrightarrow> list_all P (xs[i := x])"
  by (auto simp: list_all_iff dest: set_update_subset_insert [THEN subsetD])

lemma ph_timely_mono:
  "ph_timely now p \<Longrightarrow> now \<le> now' \<Longrightarrow> ph_timely now' p"
  by (cases p) auto

lemma map2_update2:
  "i < length xs \<Longrightarrow> length xs = length ys \<Longrightarrow>
   map2 f (xs[i := x]) (ys[i := y]) = (map2 f xs ys)[i := f x y]"
  by (simp add: zip_update map_update)

lemma map2_update1:
  "i < length xs \<Longrightarrow> length xs = length ys \<Longrightarrow>
   map2 f (xs[i := x]) ys = (map2 f xs ys)[i := f x (ys ! i)]"
  using map2_update2 [of i xs ys f x "ys ! i"] by simp

lemma map2_update_same:
  assumes "i < length xs" and "length xs = length ys" and "f x y = f (xs ! i) (ys ! i)"
  shows "map2 f (xs[i := x]) (ys[i := y]) = map2 f xs ys"
proof -
  have "map2 f xs ys ! i = f (xs ! i) (ys ! i)" using assms(1,2) by simp
  then have "(map2 f xs ys)[i := f x y] = map2 f xs ys" using assms(3) by (metis list_update_id)
  with assms(1,2) show ?thesis by (simp add: map2_update2)
qed

lemma map2_update_same1:
  "i < length xs \<Longrightarrow> length xs = length ys \<Longrightarrow> f x (ys ! i) = f (xs ! i) (ys ! i) \<Longrightarrow>
   map2 f (xs[i := x]) ys = map2 f xs ys"
  using map2_update_same [of i xs ys f x "ys ! i"] by simp

section \<open>The invariant of overlapping runs\<close>

lemma ovl_inv_init: "ovl_inv lg nx qs w (ovl_init qs w)"
  by (simp add: ovl_inv_def ovl_init_def list_all_iff)

lemma ovl_start_inv:
  assumes inv: "ovl_inv lg nx qs w0 s" and q: "oqueues s ! i = c # cs"
  shows "ovl_inv lg nx qs w0 (ovl_begin i s)"
  using inv by (simp add: ovl_begin_Cons [OF q] ovl_inv_def list_all_update)

lemma ovl_inner_inv:
  assumes inv: "ovl_inv lg nx qs w0 s" and p: "phases s ! i = Began b c" and i: "i < length (phases s)"
  shows "ovl_inv lg nx qs w0 (ovl_inner api nx i s)"
proof -
  obtain res w' where call: "svc_call api nx c (owld s) = (res, w')" by fastforce
  have mono: "clock (owld s) \<le> clock w'"
    using svc_call_world_mono [of "owld s" api nx c] call by simp
  have lg: "length (logs w') = length (logs (owld s)) + log_layers nx"
    using svc_call_logs_length [of api nx c "owld s"] call by simp
  from inv i have "ph_timely (clock (owld s)) (phases s ! i)" by (simp add: ovl_inv_def list_all_length)
  with p have "b \<le> clock (owld s)" by simp
  then have new: "ph_timely (clock w') (Returned b (clock w' - clock (owld s)) c res)"
    using mono by simp
  have old: "list_all (ph_timely (clock w')) (phases s)"
    using inv mono by (auto simp: ovl_inv_def list_all_iff intro: ph_timely_mono)
  show ?thesis
    using inv mono lg new old
    by (simp add: ovl_inner_Began [OF p call] ovl_inv_def list_all_update algebra_simps)
qed

lemma ovl_finish_inv:
  assumes inv: "ovl_inv lg nx qs w0 s" and p: "phases s ! i = Returned b d c res" and i: "i < length (phases s)"
  shows "ovl_inv lg nx qs w0 (ovl_finish lg i s)"
proof -
  obtain res' w' where dl: "deferred_log lg (keyvals_of c res (int (clock (owld s)) - int b)) res (owld s) = (res', w')"
    by fastforce
  from inv i have "ph_timely (clock (owld s)) (phases s ! i)" by (simp add: ovl_inv_def list_all_length)
  with p have bd: "b + d \<le> clock (owld s)" by simp
  have w': "clock w' = clock (owld s)"
    "length (logs w') = length (logs (owld s)) + (if lg = None then 0 else 1)"
    using dl by (cases lg; auto)+
  show ?thesis
    using inv bd w' by (simp add: ovl_finish_Returned [OF p dl] ovl_inv_def list_all_update)
qed

lemma ovl_step_inv:
  "ovl_step api lg nx s t \<Longrightarrow> ovl_inv lg nx qs w0 s \<Longrightarrow> ovl_inv lg nx qs w0 t"
proof (induction rule: ovl_step.induct)
  case (start s i)
  then obtain c cs where "oqueues s ! i = c # cs" by (cases "oqueues s ! i") auto
  with start.prems show ?case by (rule ovl_start_inv)
next
  case (inner s i b c)
  then show ?case by (intro ovl_inner_inv)
next
  case (finish s i b d c res)
  then show ?case by (intro ovl_finish_inv)
qed

lemma ovl_reach_inv:
  "(ovl_step api lg nx)\<^sup>*\<^sup>* (ovl_init qs w) s \<Longrightarrow> ovl_inv lg nx qs w s"
  by (induction rule: rtranclp_induct) (auto intro: ovl_inv_init ovl_step_inv)

section \<open>Overlapping calls refine atomic calls\<close>

primrec ph_normal :: "phase \<Rightarrow> bool" where
  "ph_normal Idle = True"
| "ph_normal (Began b c) = True"
| "ph_normal (Returned b d c res) = (\<not> is_panic res)"

definition ovl_ok :: "'n ovl \<Rightarrow> bool" where
  "ovl_ok s \<longleftrightarrow> \<not> ocrashed s \<and> list_all ph_normal (phases s)"

lemma ovl_step_ok:
  assumes ok: "handle_ok nx" and st: "ovl_step api (Some l) nx s t" and s: "ovl_ok s"
  shows "ovl_ok t"
  using st s
proof (induction rule: ovl_step.induct)
  case (start s i)
  then obtain c cs where "oqueues s ! i = c # cs" by (cases "oqueues s ! i") auto
  with start.prems show ?case by (simp add: ovl_begin_Cons ovl_ok_def list_all_update)
next
  case (inner s i b c)
  obtain res w' where call: "svc_call api nx c (owld s) = (res, w')" by fastforce
  from ok obtain r where "fst (svc_call api nx c (owld s)) = Normal r"
    using svc_call_returns_iff by blast
  with call inner show ?case by (auto simp: ovl_inner_Began ovl_ok_def list_all_update)
next
  case (finish s i b d c res)
  then have "\<not> is_panic res" by (auto simp: ovl_ok_def list_all_length)
  with finish show ?case
    by (simp add: ovl_finish_def Let_def ovl_ok_def list_all_update)
qed

lemma ovl_reach_ok:
  assumes ok: "handle_ok nx" and r: "(ovl_step api (Some l) nx)\<^sup>*\<^sup>* (ovl_init qs w) s"
  shows "ovl_ok s"
  using r
proof (induction rule: rtranclp_induct)
  case base
  then show ?case by (simp add: ovl_ok_def ovl_init_def list_all_iff)
next
  case (step y z)
  then show ?case using ovl_step_ok [OF ok] by blast
qed

lemma ovl_abs_init: "ovl_abs (ovl_init qs w) = sys_init qs (w\<lparr>logs := []\<rparr>)"
proof -
  have q: "map2 ph_queue (replicate (length qs) Idle) qs = qs" by (induction qs) auto
  have r: "map2 ph_results (replicate n Idle) (replicate n []) = replicate n []" for n :: nat
    by (induction n) auto
  show ?thesis by (simp add: ovl_abs_def ovl_init_def sys_init_def q r)
qed

text \<open>Beginning a call and writing its log line do not move the atomic view; the
  request to the next service is one atomic call of the undecorated handle.\<close>

lemma ovl_start_abs:
  assumes q: "oqueues s ! i = c # cs" and p: "phases s ! i = Idle" and i: "i < length (oqueues s)"
    and len: "length (phases s) = length (oqueues s)" "length (oresults s) = length (oqueues s)"
  shows "ovl_abs (ovl_begin i s) = ovl_abs s"
proof -
  have "map2 ph_queue ((phases s)[i := Began (clock (owld s)) c]) ((oqueues s)[i := cs]) =
      map2 ph_queue (phases s) (oqueues s)"
    using q p i len by (intro map2_update_same) simp_all
  moreover have "map2 ph_results ((phases s)[i := Began (clock (owld s)) c]) (oresults s) =
      map2 ph_results (phases s) (oresults s)"
    using p i len by (intro map2_update_same1) simp_all
  ultimately show ?thesis by (simp add: ovl_begin_Cons [OF q] ovl_abs_def)
qed

lemma ovl_inner_abs:
  assumes p: "phases s ! i = Began b c" and i: "i < length (oqueues s)"
    and len: "length (phases s) = length (oqueues s)" "length (oresults s) = length (oqueues s)"
    and call: "svc_call api nx c (owld s) = (res, w')" and np: "\<not> is_panic res" and nc: "\<not> ocrashed s"
  shows "ovl_abs (ovl_inner api nx i s) = call_by api (undecorate nx) i (ovl_abs s)"
proof -
  have q: "queues (ovl_abs s) ! i = c # oqueues s ! i"
    using p i len by (simp add: ovl_abs_def)
  have r: "results (ovl_abs s) ! i = oresults s ! i"
    using p i len by (simp add: ovl_abs_def)
  have u: "svc_call api (undecorate nx) c (wld (ovl_abs s)) = (res, w'\<lparr>logs := []\<rparr>)"
    using svc_call_undecorate [of api nx c "[]" "owld s"] call by (simp add: ovl_abs_def)
  have "map2 ph_queue ((phases s)[i := Returned b (clock w' - clock (owld s)) c res]) (oqueues s) =
      (map2 ph_queue (phases s) (oqueues s))[i := oqueues s ! i]"
    using i len by (simp add: map2_update1)
  moreover have "map2 ph_results ((phases s)[i := Returned b (clock w' - clock (owld s)) c res]) (oresults s) =
      (map2 ph_results (phases s) (oresults s))[i := oresults s ! i @ [res]]"
    using i len by (simp add: map2_update1)
  moreover have "call_by api (undecorate nx) i (ovl_abs s) =
      (ovl_abs s)\<lparr>queues := (queues (ovl_abs s))[i := oqueues s ! i],
        results := (results (ovl_abs s))[i := results (ovl_abs s) ! i @ [res]],
        trace := trace (ovl_abs s) @ [(i, c)], wld := w'\<lparr>logs := []\<rparr>, crashed := is_panic res\<rparr>"
    by (rule call_by_Cons [OF q u])
  ultimately show ?thesis
    using np nc r by (simp add: ovl_inner_Began [OF p call] ovl_abs_def)
qed

lemma ovl_finish_abs:
  assumes p: "phases s ! i = Returned b d c res" and i: "i < length (oqueues s)"
    and len: "length (phases s) = length (oqueues s)" "length (oresults s) = length (oqueues s)"
    and np: "\<not> is_panic res" and nc: "\<not> ocrashed s"
  shows "ovl_abs (ovl_finish (Some l) i s) = ovl_abs s"
proof -
  have "map2 ph_queue ((phases s)[i := Idle]) (oqueues s) = map2 ph_queue (phases s) (oqueues s)"
    using p i len by (intro map2_update_same1) simp_all
  moreover have "map2 ph_results ((phases s)[i := Idle]) ((oresults s)[i := oresults s ! i @ [res]]) =
      map2 ph_results (phases s) (oresults s)"
    using p i len by (intro map2_update_same) simp_all
  ultimately show ?thesis
    using np nc by (simp add: ovl_finish_def p Let_def ovl_abs_def log_append_def)
qed

lemma ovl_step_abs:
  assumes ok: "handle_ok nx" and st: "ovl_step api (Some l) nx s t"
    and good: "ovl_ok s" and inv: "ovl_inv (Some l) nx qs w0 s"
  shows "ovl_abs t = ovl_abs s \<or> sys_step api (undecorate nx) (ovl_abs s) (ovl_abs t)"
proof -
  from inv have len: "length (phases s) = length (oqueues s)" "length (oresults s) = length (oqueues s)"
    by (simp_all add: ovl_inv_def)
  from good have nc: "\<not> ocrashed s" by (simp add: ovl_ok_def)
  from st show ?thesis
  proof (cases rule: ovl_step.cases)
    case (start i)
    then obtain c cs where "oqueues s ! i = c # cs" by (cases "oqueues s ! i") auto
    with start len show ?thesis by (simp add: ovl_start_abs)
  next
    case (inner i b c)
    obtain res w' where call: "svc_call api nx c (owld s) = (res, w')" by fastforce
    from ok obtain r where "fst (svc_call api nx c (owld s)) = Normal r"
      using svc_call_returns_iff by blast
    with call have np: "\<not> is_panic res" by auto
    from inner len have i: "i < length (oqueues s)" by simp
    have abs: "ovl_abs t = call_by api (undecorate nx) i (ovl_abs s)"
      using inner ovl_inner_abs [OF _ i len call np nc] by simp
    have "queues (ovl_abs s) ! i \<noteq> []" and "i < length (queues (ovl_abs s))"
      using inner len by (simp_all add: ovl_abs_def)
    then have "sys_step api (undecorate nx) (ovl_abs s) (call_by api (undecorate nx) i (ovl_abs s))"
      using nc by (intro sys_step.call) (simp_all add: ovl_abs_def)
    with abs show ?thesis by simp
  next
    case (finish i b d c res)
    with good have np: "\<not> is_panic res" by (auto simp: ovl_ok_def list_all_length)
    from finish len have i: "i < length (oqueues s)" by simp
    with finish len np nc show ?thesis by (simp add: ovl_finish_abs)
  qed
qed

lemma ovl_reach_abs:
  assumes ok: "handle_ok nx" and r: "(ovl_step api (Some l) nx)\<^sup>*\<^sup>* (ovl_init qs w) s"
  shows "(sys_step api (undecorate nx))\<^sup>*\<^sup>* (sys_init qs (w\<lparr>logs := []\<rparr>)) (ovl_abs s)"
  using r
proof (induction rule: rtranclp_induct)
  case base
  then show ?case by (simp add: ovl_abs_init)
next
  case (step y z)
  have "ovl_ok y" using ok step.hyps(1) by (rule ovl_reach_ok)
  moreover have "ovl_inv (Some l) nx qs w y" using step.hyps(1) by (rule ovl_reach_inv)
  ultimately have "ovl_abs z = ovl_abs y \<or> sys_step api (undecorate nx) (ovl_abs y) (ovl_abs z)"
    by (rule ovl_step_abs [OF ok step.hyps(2)])
  with step.IH show ?case by (auto intro: rtranclp.rtrancl_into_rtrancl)
qed

lemma ovl_step_inner_intro:
  "\<not> ocrashed s \<Longrightarrow> i < length (phases s) \<Longrightarrow> (case phases s ! i of Began b c \<Rightarrow> True | _ \<Rightarrow> False) \<Longrightarrow>
   ovl_step api lg nx s (ovl_inner api nx i s)"
  by (cases "phases s ! i") (auto intro: ovl_step.inner)

lemma ovl_step_finish_intro:
  "\<not> ocrashed s \<Longrightarrow> i < length (phases s) \<Longrightarrow> (case phases s ! i of Returned b d c res \<Rightarrow> True | _ \<Rightarrow> False) \<Longrightarrow>
   ovl_step api lg nx s (ovl_finish lg i s)"
  by (cases "phases s ! i") (auto intro: ovl_step.finish)

section \<open>Properties of overlapping calls\<close>

text \<open>C22: However the statements of concurrent calls through a usable logging middleware interleave, the configuration seen without the log is one the atomic system of \<open>Callers\<close> reaches through the undecorated handle: the middleware's reading of the clock and its deferred logging never change what the next service does, and its request is the point at which the call takes effect.\<close>

theorem ovl_refines_atomic:
  assumes "handle_ok (IfaceLogging lg nx)" and "(ovl_step api lg nx)\<^sup>*\<^sup>* (ovl_init qs w) s"
  shows "(sys_step api (undecorate (IfaceLogging lg nx)))\<^sup>*\<^sup>* (sys_init qs (w\<lparr>logs := []\<rparr>)) (ovl_abs s)"
proof -
  from assms(1) obtain l where lg: "lg = Some l" and ok: "handle_ok nx" by auto
  with ovl_reach_abs [OF ok] assms(2) show ?thesis by simp
qed

text \<open>C23: In every run of overlapping calls through a logging middleware, each finished call's deferred function logs a duration at least the time its own request to the next service took (so never negative), although the duration also counts the other callers' work between its start and its return; and the log holds the inner layers' lines for every request made plus one line of the middleware per finished call.\<close>

theorem ovl_logged_durations:
  assumes "(ovl_step api lg nx)\<^sup>*\<^sup>* (ovl_init qs w) s"
  shows "list_all (\<lambda>(i, t, d). 0 \<le> t \<and> int d \<le> t) (ofinished s)
    \<and> length (logs (owld s)) = length (logs w) + log_layers nx * length (otrace s)
                               + (if lg = None then 0 else length (ofinished s))"
proof -
  have "ovl_inv lg nx qs w s" using assms by (rule ovl_reach_inv)
  then show ?thesis by (auto simp: ovl_inv_def list_all_iff)
qed

end
