(* ===== verification/MinioModel.thy ===== *)
theory MinioModel
  imports Overlap
begin

text \<open>
  A reference object store behind the minio client interface of \<open>S3\<close>: one
  implementation of the five calls, over an in-memory store of buckets and
  objects, with the argument checks minio-go makes before it sends a request
  (empty endpoint, empty bucket or object name, the 5 TiB limit of a single PUT,
  a presign expiry between one second and seven days). Every call takes one
  nanosecond of the clock. The store is a model of the external service, not of
  code of this repository: the theorems about the program hold for any client,
  and this one serves to run them on concrete inputs, as the repository's tests
  run them against a live server. The fixtures include a logged handle and a run
  of two overlapping callers of it, for the properties of \<open>Overlap\<close>.
\<close>

record minio_client =
  mc_endpoint :: string
  mc_secure :: bool

record stored_object =
  obj_data :: reader
  obj_type :: string

record objstore =
  bucket_names :: "string list"
  objects :: "(string \<times> string) \<Rightarrow> stored_object option"

definition mm_err :: "nat \<Rightarrow> string \<Rightarrow> gerror" where
  "mm_err n msg = Fundamental (Site_Foreign n) msg"

definition max_single_put :: int where
  "max_single_put = 5 * 1024 * 1024 * 1024 * 1024"

definition mm_New :: "string \<Rightarrow> string \<Rightarrow> string \<Rightarrow> bool \<Rightarrow> minio_client \<times> gerror option" where
  "mm_New ep cid sec ssl =
     (if ep = [] then (\<lparr>mc_endpoint = [], mc_secure = ssl\<rparr>,
        Some (mm_err 1 ''Endpoint:  does not follow ip address or domain name standards.''))
      else (\<lparr>mc_endpoint = ep, mc_secure = ssl\<rparr>, None))"

definition mm_BucketExists :: "minio_client \<Rightarrow> string \<Rightarrow> (bool \<times> gerror option, objstore) net_call" where
  "mm_BucketExists c b st =
     (if b = [] then ((False, Some (mm_err 2 ''Bucket name cannot be empty'')), st, 1)
      else ((b \<in> set (bucket_names st), None), st, 1))"

definition mm_PutObject :: "minio_client \<Rightarrow> string \<Rightarrow> string \<Rightarrow> reader \<Rightarrow> int64 \<Rightarrow> PutObjectOptions \<Rightarrow>
    (int64 \<times> gerror option, objstore) net_call" where
  "mm_PutObject c b k r sz opts st =
     (if b = [] then ((0, Some (mm_err 2 ''Bucket name cannot be empty'')), st, 1)
      else if k = [] then ((0, Some (mm_err 3 ''Object name cannot be empty'')), st, 1)
      else if max_single_put < sint sz then
        ((0, Some (mm_err 4 ''Your proposed upload size exceeds the maximum allowed object size for single PUT operation.'')), st, 1)
      else if b \<notin> set (bucket_names st) then
        ((0, Some (mm_err 5 ''The specified bucket does not exist'')), st, 1)
      else let data = (if sint sz < 0 then r else take (nat (sint sz)) r)
           in ((word_of_nat (length data), None),
               st\<lparr>objects := (objects st)((b, k) \<mapsto> \<lparr>obj_data = data, obj_type = ContentType opts\<rparr>)\<rparr>, 1))"

definition mm_RemoveObject :: "minio_client \<Rightarrow> string \<Rightarrow> string \<Rightarrow> (gerror option, objstore) net_call" where
  "mm_RemoveObject c b k st =
     (if b = [] then (Some (mm_err 2 ''Bucket name cannot be empty''), st, 1)
      else if k = [] then (Some (mm_err 3 ''Object name cannot be empty''), st, 1)
      else (None, st\<lparr>objects := (objects st)((b, k) := None)\<rparr>, 1))"

definition values_Encode :: "url_values \<Rightarrow> string" where
  "values_Encode vs = concat (map (\<lambda>(k, v). k @ ''='' @ concat v @ ''&'') vs)"

definition mm_PresignedGetObject :: "minio_client \<Rightarrow> string \<Rightarrow> string \<Rightarrow> duration \<Rightarrow> url_values \<Rightarrow>
    (url option \<times> gerror option, objstore) net_call" where
  "mm_PresignedGetObject c b k exp params st =
     (if b = [] then ((None, Some (mm_err 2 ''Bucket name cannot be empty'')), st, 1)
      else if k = [] then ((None, Some (mm_err 3 ''Object name cannot be empty'')), st, 1)
      else if sint exp < 1000000000 \<or> 604800 * 1000000000 < sint exp then
        ((None, Some (mm_err 6 ''Expires cannot be lesser than 1 second and greater than 7 days'')), st, 1)
      else ((Some \<lparr>Scheme = (if mc_secure c then ''https'' else ''http''), Host = mc_endpoint c,
                    Path = ''/'' @ b @ ''/'' @ k, RawQuery = values_Encode params\<rparr>, None), st, 1))"

definition minio_model :: "(minio_client, objstore) minio_api" where
  "minio_model = \<lparr>minio_New = mm_New, BucketExists = mm_BucketExists, PutObject = mm_PutObject,
     RemoveObject = mm_RemoveObject, PresignedGetObject = mm_PresignedGetObject\<rparr>"

section \<open>The repository's test fixtures\<close>

definition test_creds :: Credentials where
  "test_creds = \<lparr>Endpoint = ''play.minio.io:9000'', ClientID = ''Q3AM3UQ867SPQQA43P2F'',
     ClientSecret = ''zuf+tfteSlswRu7BJ86wekitnifILbZam1KYY3TG'', UseSSL = True,
     Credentials.Bucket = ''mymusic'', Credentials.Region = ''us-east-1''\<rparr>"

definition test_mime :: mime_db where
  "test_mime = \<lparr>mimeTypes = [''.xml'' \<mapsto> ''application/xml''], mimeTypesLower = [''.xml'' \<mapsto> ''application/xml'']\<rparr>"

definition test_world :: "objstore world" where
  "test_world = \<lparr>net = \<lparr>bucket_names = [''mymusic''], objects = Map.empty\<rparr>, clock = 1000, mime = test_mime, logs = []\<rparr>"

definition test_service :: "minio_client S3Service" where
  "test_service = \<lparr>creds = test_creds, client = \<lparr>mc_endpoint = ''play.minio.io:9000'', mc_secure = True\<rparr>\<rparr>"

definition test_data :: reader where
  "test_data = replicate 20 0x41"

definition empty_creds :: Credentials where
  "empty_creds = \<lparr>Endpoint = [], ClientID = [], ClientSecret = [], UseSSL = False,
     Credentials.Bucket = [], Credentials.Region = []\<rparr>"

definition missing_bucket_creds :: Credentials where
  "missing_bucket_creds = test_creds\<lparr>Credentials.Bucket := ''bleepbloop''\<rparr>"

definition test_client :: minio_client where
  "test_client = \<lparr>mc_endpoint = ''play.minio.io:9000'', mc_secure = True\<rparr>"

definition two_callers :: "call list list" where
  "two_callers = [[CStore ''test/test.xml'' test_data 20],
                  [CGetPublicURL ''test/test.xml'', CDelete ''test/test.xml'']]"

text \<open>The two callers, their first calls overlapping through the logging
  middleware: both begin, both requests run, then both return and log.\<close>

definition ovl_run :: "objstore ovl" where
  "ovl_run =
     (let api = minio_model; nx = IfaceS3 (Some test_service); lg = Some (Logger 0);
          s0 = ovl_init two_callers test_world;
          s1 = ovl_begin 0 s0; s2 = ovl_begin 1 s1;
          s3 = ovl_inner api nx 0 s2; s4 = ovl_inner api nx 1 s3;
          s5 = ovl_finish lg 0 s4
      in ovl_finish lg 1 s5)"

lemmas fixture_defs = test_creds_def test_mime_def test_world_def test_service_def test_data_def
  empty_creds_def missing_bucket_creds_def test_client_def

section \<open>Behaviour of the reference store\<close>

lemma mm_s3_NewService:
  assumes "Endpoint cr \<noteq> []" and "Credentials.Bucket cr \<noteq> []"
    and "Credentials.Bucket cr \<in> set (bucket_names (net w))"
  shows "s3_NewService minio_model cr w =
     ((Some \<lparr>creds = cr, client = \<lparr>mc_endpoint = Endpoint cr, mc_secure = UseSSL cr\<rparr>\<rparr>, None), w\<lparr>clock := clock w + 1\<rparr>)"
  using assms by (simp add: s3_NewService_def minio_model_def mm_New_def mm_BucketExists_def run_net_def)

lemma mm_PutObject_stores:
  assumes "b \<noteq> []" "k \<noteq> []" "b \<in> set (bucket_names st)" "0 \<le> sint sz" "sint sz \<le> max_single_put"
  shows "mm_PutObject c b k r sz opts st =
    ((word_of_nat (length (take (nat (sint sz)) r)), None),
     st\<lparr>objects := (objects st)((b, k) \<mapsto> \<lparr>obj_data = take (nat (sint sz)) r, obj_type = ContentType opts\<rparr>)\<rparr>, 1)"
  using assms by (simp add: mm_PutObject_def Let_def)

lemma mm_RemoveObject_removes:
  assumes "b \<noteq> []" "k \<noteq> []"
  shows "mm_RemoveObject c b k st = (None, st\<lparr>objects := (objects st)((b, k) := None)\<rparr>, 1)"
  using assms by (simp add: mm_RemoveObject_def)

lemma ovl_run_reach:
  "(ovl_step minio_model (Some (Logger 0)) (IfaceS3 (Some test_service)))\<^sup>*\<^sup>*
     (ovl_init two_callers test_world) ovl_run"
proof -
  let ?st = "ovl_step minio_model (Some (Logger 0)) (IfaceS3 (Some test_service))"
  define s0 where "s0 = (ovl_init two_callers test_world :: objstore ovl)"
  define s1 where "s1 = ovl_begin 0 s0"
  define s2 where "s2 = ovl_begin 1 s1"
  define s3 where "s3 = ovl_inner minio_model (IfaceS3 (Some test_service)) 0 s2"
  define s4 where "s4 = ovl_inner minio_model (IfaceS3 (Some test_service)) 1 s3"
  define s5 where "s5 = ovl_finish (Some (Logger 0)) 0 s4"
  have a: "?st s0 s1" unfolding s1_def
    by (rule ovl_step.start) ((unfold s0_def)?, code_simp)+
  have b: "?st s1 s2" unfolding s2_def
    by (rule ovl_step.start) ((unfold s1_def s0_def)?, code_simp)+
  have c: "?st s2 s3" unfolding s3_def
    by (rule ovl_step_inner_intro) ((unfold s2_def s1_def s0_def)?, code_simp)+
  have d: "?st s3 s4" unfolding s4_def
    by (rule ovl_step_inner_intro) ((unfold s3_def s2_def s1_def s0_def)?, code_simp)+
  have e: "?st s4 s5" unfolding s5_def
    by (rule ovl_step_finish_intro) ((unfold s4_def s3_def s2_def s1_def s0_def)?, code_simp)+
  have run: "ovl_run = ovl_finish (Some (Logger 0)) 1 s5"
    by (simp add: ovl_run_def Let_def s5_def s4_def s3_def s2_def s1_def s0_def)
  have f: "?st s5 (ovl_finish (Some (Logger 0)) 1 s5)"
    by (rule ovl_step_finish_intro) ((unfold s5_def s4_def s3_def s2_def s1_def s0_def)?, code_simp)+
  from a have "?st\<^sup>*\<^sup>* s0 s1" by (rule r_into_rtranclp)
  then have "?st\<^sup>*\<^sup>* s0 s2" using b by (rule rtranclp.rtrancl_into_rtrancl)
  then have "?st\<^sup>*\<^sup>* s0 s3" using c by (rule rtranclp.rtrancl_into_rtrancl)
  then have "?st\<^sup>*\<^sup>* s0 s4" using d by (rule rtranclp.rtrancl_into_rtrancl)
  then have "?st\<^sup>*\<^sup>* s0 s5" using e by (rule rtranclp.rtrancl_into_rtrancl)
  then have "?st\<^sup>*\<^sup>* s0 (ovl_finish (Some (Logger 0)) 1 s5)" using f by (rule rtranclp.rtrancl_into_rtrancl)
  then show ?thesis by (simp add: run s0_def)
qed

section \<open>The properties run on the fixtures\<close>

text \<open>
  Each theorem below applies a property of the components at the inputs of the
  repository's tests, with its hypotheses discharged by evaluation in the kernel.
\<close>

theorem s3_Store_success_witness:
  "fst (put_call minio_model test_service ''test/test.xml'' test_data 20 test_world) = (20, None)
   \<and> fst (s3_Store minio_model test_service ''test/test.xml'' test_data 20 test_world) =
   (\<lparr>FullPath = ''test/test.xml'', FileInfo.Bucket = ''mymusic'', FileInfo.Region = ''us-east-1'',
     MimeType = ''application/xml'', Size = 20, CreatedAt = 1001\<rparr>, None)"
proof -
  have h: "fst (put_call minio_model test_service ''test/test.xml'' test_data 20 test_world) = (20, None)"
    by code_simp
  have "clock (snd (s3_Store minio_model test_service ''test/test.xml'' test_data 20 test_world)) = 1001"
    by code_simp
  moreover have "mime_TypeByExtension (mime test_world) (filepath_Ext ''test/test.xml'') = ''application/xml''"
    by code_simp
  ultimately show ?thesis
    using h s3_Store_success [OF h] by (simp add: test_service_def test_creds_def)
qed

theorem NewService_unsupported_type_witness:
  "''disk'' \<noteq> ''s3'' \<and>
   (\<exists>e. NewService minio_model ''disk'' test_creds None test_world = ((IfaceNil, Some e), test_world)
        \<and> Is e ErrUnsupportedType \<and> \<not> Is e ErrBucketNotExists
        \<and> Error e = ''service '' @ quoted ''disk'' @ '' unsupported: '' @ Error ErrUnsupportedType)"
  using NewService_unsupported_type [of "''disk''" minio_model test_creds None test_world] by simp

theorem NewService_typed_nil_handle_witness:
  "snd (fst (s3_NewService minio_model empty_creds test_world)) =
      Some (errors_Wrap (mm_err 1 ''Endpoint:  does not follow ip address or domain name standards.'') ''cannot create s3 client'')
   \<and> fst (NewService minio_model ''s3'' empty_creds (Some (Logger 0)) test_world) =
      (IfaceLogging (Some (Logger 0)) (IfaceS3 None),
       Some (errors_Wrap (mm_err 1 ''Endpoint:  does not follow ip address or domain name standards.'') ''cannot create s3 client''))"
proof -
  have h: "snd (fst (s3_NewService minio_model empty_creds test_world)) =
      Some (errors_Wrap (mm_err 1 ''Endpoint:  does not follow ip address or domain name standards.'') ''cannot create s3 client'')"
    by code_simp
  show ?thesis using h NewService_typed_nil_handle [OF h, where l = "Logger 0"] by simp
qed

theorem s3_Store_failure_witness:
  "fst (put_call minio_model test_service ''test/empty.xml'' [] 5497558138881 test_world) =
     (0, Some (mm_err 4 ''Your proposed upload size exceeds the maximum allowed object size for single PUT operation.''))
   \<and> fst (s3_Store minio_model test_service ''test/empty.xml'' [] 5497558138881 test_world) =
     (zero_FileInfo, Some (errors_Wrap (mm_err 4 ''Your proposed upload size exceeds the maximum allowed object size for single PUT operation.'')
        (''failed to store file '' @ quoted ''test/empty.xml'')))"
proof -
  have h: "fst (put_call minio_model test_service ''test/empty.xml'' [] 5497558138881 test_world) =
     (0, Some (mm_err 4 ''Your proposed upload size exceeds the maximum allowed object size for single PUT operation.''))"
    by code_simp
  show ?thesis using h s3_Store_failure [OF h] by simp
qed

theorem mw_Store_logged_witness:
  "fst (mw_Store (Some (Logger 0)) (svc_Store minio_model (IfaceS3 (Some test_service))) ''test/test.xml'' test_data 20 test_world) =
    Normal (\<lparr>FullPath = ''test/test.xml'', FileInfo.Bucket = ''mymusic'', FileInfo.Region = ''us-east-1'',
              MimeType = ''application/xml'', Size = 20, CreatedAt = 1001\<rparr>, None)
   \<and> logs (snd (mw_Store (Some (Logger 0)) (svc_Store minio_model (IfaceS3 (Some test_service))) ''test/test.xml'' test_data 20 test_world)) =
     [(Logger 0, store_keyvals ''test/test.xml''
           \<lparr>FullPath = ''test/test.xml'', FileInfo.Bucket = ''mymusic'', FileInfo.Region = ''us-east-1'',
            MimeType = ''application/xml'', Size = 20, CreatedAt = 1001\<rparr> None 1)]"
proof -
  let ?w1 = "snd (svc_Store minio_model (IfaceS3 (Some test_service)) ''test/test.xml'' test_data 20 test_world)"
  have h: "svc_Store minio_model (IfaceS3 (Some test_service)) ''test/test.xml'' test_data 20 test_world =
    (Normal (\<lparr>FullPath = ''test/test.xml'', FileInfo.Bucket = ''mymusic'', FileInfo.Region = ''us-east-1'',
              MimeType = ''application/xml'', Size = 20, CreatedAt = 1001\<rparr>, None), ?w1)"
    by (rule prod_eqI) (code_simp, simp)
  have "took test_world ?w1 = 1" and "logs ?w1 = []" by code_simp+
  with mw_Store_logged [of "svc_Store minio_model (IfaceS3 (Some test_service))" "''test/test.xml''"
      test_data 20 test_world, OF h, where l = "Logger 0"] show ?thesis by simp
qed

theorem NewService_handle_ok_witness:
  "(snd (fst (NewService minio_model ''s3'' test_creds (Some (Logger 0)) test_world)) = None) =
     handle_ok (fst (fst (NewService minio_model ''s3'' test_creds (Some (Logger 0)) test_world)))
   \<and> handle_ok (fst (fst (NewService minio_model ''s3'' test_creds (Some (Logger 0)) test_world)))"
proof -
  have "snd (fst (NewService minio_model ''s3'' test_creds (Some (Logger 0)) test_world)) = None"
    by code_simp
  then show ?thesis
    using NewService_handle_ok [of minio_model "''s3''" test_creds "Some (Logger 0)" test_world
        "fst (fst (NewService minio_model ''s3'' test_creds (Some (Logger 0)) test_world))"
        "snd (fst (NewService minio_model ''s3'' test_creds (Some (Logger 0)) test_world))"]
    by simp
qed

theorem NewService_wraps_backend_witness:
  "fst (s3_NewService minio_model test_creds test_world) = (Some test_service, None)
   \<and> fst (NewService minio_model ''s3'' test_creds (Some (Logger 0)) test_world) =
       (IfaceLogging (Some (Logger 0)) (IfaceS3 (Some test_service)), None)"
proof -
  have h: "fst (s3_NewService minio_model test_creds test_world) = (Some test_service, None)"
    by code_simp
  show ?thesis using h NewService_wraps_backend [OF h, where lg = "Some (Logger 0)"] by simp
qed

theorem mw_Store_panic_logged_witness:
  "mw_Store (Some (Logger 0)) (svc_Store minio_model (IfaceS3 None)) ''test/test.xml'' test_data 20 test_world =
    (Panicked nil_deref, test_world\<lparr>logs := [(Logger 0, store_keyvals ''test/test.xml'' zero_FileInfo None 0)]\<rparr>)"
proof -
  have h: "svc_Store minio_model (IfaceS3 None) ''test/test.xml'' test_data 20 test_world = (Panicked nil_deref, test_world)"
    by (simp add: nil_call_def)
  show ?thesis
    using mw_Store_panic_logged [of "svc_Store minio_model (IfaceS3 None)" "''test/test.xml''" test_data 20
        test_world nil_deref test_world, OF h, where l = "Logger 0"]
    by (simp add: took_def test_world_def)
qed

theorem mw_Delete_logged_witness:
  "fst (mw_Delete (Some (Logger 0)) (svc_Delete minio_model (IfaceS3 (Some test_service))) [] test_world) =
     Normal (Some (errors_Wrap (mm_err 3 ''Object name cannot be empty'') (''cannot delete '' @ quoted [])))
   \<and> logs (snd (mw_Delete (Some (Logger 0)) (svc_Delete minio_model (IfaceS3 (Some test_service))) [] test_world)) =
     [(Logger 0, delete_keyvals [] (Some (errors_Wrap (mm_err 3 ''Object name cannot be empty'') (''cannot delete '' @ quoted []))) 1)]"
proof -
  let ?call = "svc_Delete minio_model (IfaceS3 (Some test_service)) [] test_world"
  have h: "svc_Delete minio_model (IfaceS3 (Some test_service)) [] test_world = (fst ?call, snd ?call)"
    by simp
  have "fst ?call = Normal (Some (errors_Wrap (mm_err 3 ''Object name cannot be empty'') (''cannot delete '' @ quoted [])))"
    and "took test_world (snd ?call) = 1" and "logs (snd ?call) = []" by code_simp+
  with mw_Delete_logged [of "svc_Delete minio_model (IfaceS3 (Some test_service))" "[]" test_world,
      OF h, where l = "Logger 0"] show ?thesis by simp
qed

theorem mw_GetPublicURL_logged_witness:
  "fst (mw_GetPublicURL (Some (Logger 0)) (svc_GetPublicURL minio_model (IfaceS3 (Some test_service))) [] test_world) =
     Normal (None, Some (errors_Wrap (mm_err 3 ''Object name cannot be empty'')
       (''unable to get S3 pre-signed URL for file '' @ quoted [])))
   \<and> length (logs (snd (mw_GetPublicURL (Some (Logger 0))
       (svc_GetPublicURL minio_model (IfaceS3 (Some test_service))) [] test_world))) = 1"
proof -
  let ?call = "svc_GetPublicURL minio_model (IfaceS3 (Some test_service)) [] test_world"
  have h: "?call = (Normal (None, Some (errors_Wrap (mm_err 3 ''Object name cannot be empty'')
       (''unable to get S3 pre-signed URL for file '' @ quoted []))), snd ?call)"
    by (rule prod_eqI) (code_simp, simp)
  have "logs (snd ?call) = []" by code_simp
  with mw_GetPublicURL_logged [of "svc_GetPublicURL minio_model (IfaceS3 (Some test_service))" "[]" test_world,
      OF h, where l = "Logger 0"] show ?thesis by simp
qed

theorem s3_Store_no_partial_result_witness:
  "fst (s3_Store minio_model test_service [] test_data 20 test_world) =
     (zero_FileInfo, Some (errors_Wrap (mm_err 3 ''Object name cannot be empty'') (''failed to store file '' @ quoted [])))
   \<and> (\<exists>e0. errors_Wrap (mm_err 3 ''Object name cannot be empty'') (''failed to store file '' @ quoted []) =
          errors_Wrap e0 (''failed to store file '' @ quoted []))"
proof -
  have h: "fst (s3_Store minio_model test_service [] test_data 20 test_world) =
     (zero_FileInfo, Some (errors_Wrap (mm_err 3 ''Object name cannot be empty'') (''failed to store file '' @ quoted [])))"
    by code_simp
  show ?thesis using h s3_Store_no_partial_result [OF h] by simp
qed

theorem s3_NewService_bucket_not_exists_witness:
  "minio_New minio_model (Endpoint missing_bucket_creds) (ClientID missing_bucket_creds)
      (ClientSecret missing_bucket_creds) (UseSSL missing_bucket_creds) = (test_client, None)
   \<and> fst (run_net (BucketExists minio_model test_client (Credentials.Bucket missing_bucket_creds)) test_world) = (False, None)
   \<and> (\<exists>e. fst (s3_NewService minio_model missing_bucket_creds test_world) = (None, Some e)
        \<and> Is e ErrBucketNotExists
        \<and> Error e = ''bucket bleepbloop: '' @ Error ErrBucketNotExists)"
proof -
  have h1: "minio_New minio_model (Endpoint missing_bucket_creds) (ClientID missing_bucket_creds)
      (ClientSecret missing_bucket_creds) (UseSSL missing_bucket_creds) = (test_client, None)"
    by code_simp
  have h2: "fst (run_net (BucketExists minio_model test_client (Credentials.Bucket missing_bucket_creds)) test_world) = (False, None)"
    by code_simp
  have "Credentials.Bucket missing_bucket_creds = ''bleepbloop''"
    by (simp add: missing_bucket_creds_def)
  with h1 h2 s3_NewService_bucket_not_exists [OF h1 h2] show ?thesis by simp
qed

theorem s3_NewService_success_witness:
  "minio_New minio_model (Endpoint test_creds) (ClientID test_creds) (ClientSecret test_creds) (UseSSL test_creds)
      = (test_client, None)
   \<and> fst (run_net (BucketExists minio_model test_client (Credentials.Bucket test_creds)) test_world) = (True, None)
   \<and> fst (s3_NewService minio_model test_creds test_world) = (Some \<lparr>creds = test_creds, client = test_client\<rparr>, None)"
proof -
  have h1: "minio_New minio_model (Endpoint test_creds) (ClientID test_creds) (ClientSecret test_creds) (UseSSL test_creds)
      = (test_client, None)" by code_simp
  have h2: "fst (run_net (BucketExists minio_model test_client (Credentials.Bucket test_creds)) test_world) = (True, None)"
    by code_simp
  show ?thesis using h1 h2 s3_NewService_success [OF h1 h2] by simp
qed

theorem s3_NewService_fail_fast_witness:
  "fst (s3_NewService minio_model empty_creds test_world) =
     (None, Some (errors_Wrap (mm_err 1 ''Endpoint:  does not follow ip address or domain name standards.'')
        ''cannot create s3 client''))"
proof -
  have h: "minio_New minio_model (Endpoint empty_creds) (ClientID empty_creds) (ClientSecret empty_creds) (UseSSL empty_creds)
      = (\<lparr>mc_endpoint = [], mc_secure = False\<rparr>,
         Some (mm_err 1 ''Endpoint:  does not follow ip address or domain name standards.''))"
    by code_simp
  show ?thesis using s3_NewService_fail_fast [OF h, where w = test_world] by simp
qed

text \<open>GetPublicURL of the test file names the base name test.xml in its header and returns a URL.\<close>

theorem s3_GetPublicURL_request_witness:
  "filepath_Base ''test/test.xml'' = ''test.xml'' \<and> slash \<notin> set (filepath_Base ''test/test.xml'')
   \<and> fst (fst (s3_GetPublicURL minio_model test_service ''test/test.xml'' test_world)) \<noteq> None"
proof -
  have b: "filepath_Base ''test/test.xml'' = ''test.xml''" by code_simp
  have u: "fst (fst (s3_GetPublicURL minio_model test_service ''test/test.xml'' test_world)) \<noteq> None"
    by code_simp
  show ?thesis
    using s3_GetPublicURL_request [of minio_model test_service "''test/test.xml''" test_world] b u
    by (simp add: slash_def)
qed

text \<open>The overlapping run on the test store: each call's request took 1 ns, and each
  logged 2 ns, the other caller's request included.\<close>

theorem ovl_logged_durations_witness:
  "ofinished ovl_run = [(0, 2, 1), (1, 2, 1)] \<and> length (logs (owld ovl_run)) = 2"
proof -
  have f: "ofinished ovl_run = [(0, 2, 1), (1, 2, 1)]" by code_simp
  have t: "length (otrace ovl_run) = 2" by code_simp
  show ?thesis
    using ovl_logged_durations [OF ovl_run_reach] f t by (simp add: test_world_def)
qed

theorem ovl_refines_atomic_witness:
  "handle_ok (IfaceLogging (Some (Logger 0)) (IfaceS3 (Some test_service))) \<and>
   (sys_step minio_model (IfaceS3 (Some test_service)))\<^sup>*\<^sup>*
     (sys_init two_callers (test_world\<lparr>logs := []\<rparr>)) (ovl_abs ovl_run)"
proof -
  have h: "handle_ok (IfaceLogging (Some (Logger 0)) (IfaceS3 (Some test_service)))"
    by (simp add: test_service_def)
  show ?thesis using h ovl_refines_atomic [OF h ovl_run_reach] by simp
qed

text \<open>The factory on the test's missing bucket: the error is of the fourth kind.\<close>

theorem NewService_error_kinds_witness:
  "snd (fst (NewService minio_model ''s3'' missing_bucket_creds None test_world)) =
     Some (errors_Wrap ErrBucketNotExists ''bucket bleepbloop'')
   \<and> (\<exists>cl. minio_New minio_model (Endpoint missing_bucket_creds) (ClientID missing_bucket_creds)
            (ClientSecret missing_bucket_creds) (UseSSL missing_bucket_creds) = (cl, None)
        \<and> fst (BucketExists minio_model cl (Credentials.Bucket missing_bucket_creds) (net test_world)) = (False, None)
        \<and> Is (errors_Wrap ErrBucketNotExists ''bucket bleepbloop'') ErrBucketNotExists)"
proof -
  have h: "snd (fst (NewService minio_model ''s3'' missing_bucket_creds None test_world)) =
      Some (errors_Wrap ErrBucketNotExists ''bucket bleepbloop'')"
    by code_simp
  have n: "snd (minio_New minio_model (Endpoint missing_bucket_creds) (ClientID missing_bucket_creds)
      (ClientSecret missing_bucket_creds) (UseSSL missing_bucket_creds)) = None"
    by code_simp
  have b: "Credentials.Bucket missing_bucket_creds = ''bleepbloop''"
    by (simp add: missing_bucket_creds_def)
  have e: "errors_Wrap ErrBucketNotExists ''bucket bleepbloop'' \<noteq> errors_Wrap e0 ''cannot create s3 client''"
    and e': "errors_Wrap ErrBucketNotExists ''bucket bleepbloop'' \<noteq> errors_Wrap e0 ''bucket error''" for e0
    by (simp_all add: errors_Wrap_def)
  from NewService_error_kinds [OF h] n b e e' show ?thesis
    using h by (auto simp: b)
qed

end
