(* ===== verification/Spec2Isabelle.thy ===== *)
theory Spec2Isabelle
  imports MinioModel
begin

text \<open>
  \<^bold>\<open>A verification development of go-file-helper.\<close>

  \<^bold>\<open>The program.\<close> go-file-helper gives callers one handle, of the interface
  \<open>schema.Service\<close> (\<open>src/schema/schema.go\<close>), through which they store a file,
  delete it, and get a time-limited download URL for it. Three parts implement it:
  \<^item> the S3 backend \<open>src/s3/service.go\<close>: \<open>NewService\<close> builds a minio client and
    checks that the bucket exists; \<open>Store\<close>, \<open>Delete\<close> and \<open>GetPublicURL\<close>
    make one client call each and wrap its error with context;
  \<^item> the logging middleware \<open>src/logging.go\<close>: a \<open>loggingMiddleware\<close> holds a
    go-kit logger and the next service; each method calls the next one and, in a
    deferred function, logs one line (method, file name, results, error, duration);
  \<^item> the factory \<open>src/service.go\<close>: \<open>NewService(typ, creds, logger)\<close> builds the
    S3 backend for \<open>typ = "s3"\<close>, refuses any other type with the sentinel
    \<open>ErrUnsupportedType\<close>, and wraps the backend in the middleware when a logger
    is given.
  They interact only through the interface: the middleware calls whatever service
  it holds, and the factory composes them. Errors are \<open>github.com/pkg/errors\<close>
  chains whose sentinels must stay matchable after wrapping.

  \<^bold>\<open>The model.\<close> A shallow embedding, one theory per part:
  \<^item> \<open>Prelude\<close>: Go scalar types (\<open>int64\<close> is \<open>64 word\<close>), the characters of the
    format strings, and \<open>outcome\<close>: a call returns (\<open>Normal\<close>) or panics
    (\<open>Panicked\<close>).
  \<^item> \<open>GoErrors\<close>: pkg/errors (\<open>errors_New\<close>, \<open>errors_Wrap\<close>, \<open>Error\<close>,
    \<open>Cause\<close>, \<open>Is\<close>); identity of an error is its allocation site, as Go compares
    pointers.
  \<^item> \<open>GoStd\<close>: the standard-library functions the backend calls, translated from
    their Go source and proved equal to reference definitions: \<open>filepath_Ext\<close>,
    \<open>filepath_Base\<close>, \<open>mime_TypeByExtension\<close> (with its allocation-free ASCII
    loop \<open>lower_ascii_scan\<close>), \<open>url.Values\<close>.
  \<^item> \<open>Schema\<close>: the records \<open>FileInfo\<close> and \<open>Credentials\<close> of schema.go, and the
    world the methods run in: the network state (a type parameter), the clock, the
    MIME tables and the log. A network call returns its result and its duration;
    \<open>run_net\<close> advances the clock by it, so the clock is monotonic. The three
    method types of the interface (\<open>store_fn\<close>, \<open>delete_fn\<close>, \<open>url_fn\<close>).
  \<^item> \<open>S3\<close>: the minio client as a record of five functions (\<open>minio_api\<close>), so
    that every theorem holds for any client; \<open>s3_Store\<close>, \<open>s3_Delete\<close>,
    \<open>s3_GetPublicURL\<close>, \<open>s3_NewService\<close> translate the four functions of
    s3/service.go line by line.
  \<^item> \<open>Logging\<close>: \<open>mw_Store\<close>, \<open>mw_Delete\<close>, \<open>mw_GetPublicURL\<close> over the next
    service's method, with Go's \<open>defer\<close>: the line is written also when the next
    service panics, from the zero-valued named results; a nil logger panics.
  \<^item> \<open>Service\<close>: interface values as the datatype \<open>service\<close> (nil interface,
    \<open>*s3.Service\<close> that may be a typed nil, \<open>*loggingMiddleware\<close>); method
    dispatch \<open>svc_Store\<close>, \<open>svc_Delete\<close>, \<open>svc_GetPublicURL\<close>; the factory
    \<open>NewService\<close>; a datatype of calls with one step function \<open>svc_call\<close> and a
    run of calls \<open>svc_run\<close> (a panic ends it).
  \<^item> \<open>Callers\<close>: concurrent callers sharing one handle (spec section 5), the
    abstract side of the refinement of \<open>Overlap\<close>, as an inductive step relation \<open>sys_step\<close> over configurations (each caller's pending
    calls and outcomes, the calls in the order they ran, the shared world, and the
    crash of the process on an unrecovered panic); \<open>call_by\<close> is one caller making
    its next call through \<open>svc_call\<close>. Calls are atomic: the order of overlapping
    requests is the backend's, which the spec leaves to it.
  \<^item> \<open>Overlap\<close>: calls through one logging middleware at the granularity of
    its statements (logging.go): \<open>ovl_begin\<close> evaluates \<open>time.Now()\<close> for the
    deferred function, \<open>ovl_inner\<close> calls the next service, \<open>ovl_finish\<close> runs the
    deferred \<open>Log\<close> on return; the scheduler \<open>ovl_step\<close> interleaves these steps of
    all callers. The abstraction \<open>ovl_abs\<close> maps a configuration to the atomic
    system of \<open>Callers\<close>.
  \<^item> \<open>MinioModel\<close>: one concrete client, an in-memory object store with
    minio-go's argument checks, and the fixtures of the repository's tests; the
    properties are applied there, with hypotheses discharged by evaluation.

  \<^bold>\<open>What is proved.\<close>
  \<^item> Factory (Service): unsupported types give a nil handle and an error matching
    the sentinel (C1); a failed backend construction with a logger gives a
    non-nil handle together with the error, a Go typed-nil consequence, and every
    call through it panics (C2); no error iff the handle is usable (C3); success
    wraps the backend in exactly one middleware iff a logger is given (C4); every
    handle the factory returns has one of three shapes, with at most one logging
    layer (C21); every construction error is an unsupported type or a missing
    bucket (both sentinels, matchable after wrapping), or a client or bucket-check
    error wrapped with its context (C24).
  \<^item> Decoration (Service and here): stripping the logging layers changes nothing
    but the log, for any sequence of calls (C5); every call writes exactly one line
    per logging layer, panics included (C6); a handle returns normally iff it is
    usable (C7).
  \<^item> Middleware (Logging): results pass through unchanged with one line of the
    specified fields, its duration read from the clock before and after the call
    of the next service (C8, C10, C11); a panicking call is logged from the
    zero-valued named results and the panic goes on (C9).
  \<^item> Backend (S3): Store's FileInfo on success (C12), the zero value and the
    wrapped error on failure (C13, C14), Delete's error propagation (C15), the
    presign request with its 24-hour expiry and download file name (C16), the
    sentinel \<open>ErrBucketNotExists\<close> (C17), construction (C18, C19).
  \<^item> End to end (here): with the reference store, a handle from the factory
    stores an object and deletes it (C20).
  \<^item> Overlapping calls (Overlap): the statements of a usable middleware refine
    atomic calls of the undecorated handle in \<open>Callers\<close>, with the request to the
    next service as the point of effect (C22); every logged duration is at least
    the time of the call's own request, though it also counts other callers' work,
    and the log holds one middleware line per finished call (C23).
  Facts about single calls are not repeated for the atomic system of \<open>Callers\<close>:
  there every step is one \<open>svc_call\<close>, so they are those of \<open>Service\<close>.

  \<^bold>\<open>Bounds.\<close> No loop of the program is unbounded and no definition needs
  fuel: the only loops are in \<open>filepath.Ext\<close>, \<open>filepath.Base\<close> and the MIME
  lookup's lowering, structural recursions on the string; the concurrent systems
  are relations whose properties are invariants of every reachable configuration.
  \<open>time.Hour*24\<close> is 86400 s in nanoseconds, far inside \<open>int64\<close>. Durations are
  differences of the monotonic clock (\<open>int\<close>, since Go's saturation at 292 years
  is never reached).

  \<^bold>\<open>Not modelled.\<close> Every function, method and declaration of the four source
  files is translated; what is left out is outside them or below the level the
  spec fixes:
  \<^item> the minio-go library and the network, a black box behind \<open>minio_api\<close>
    (assumed not to panic), with TLS and credentials;
  \<^item> the go-kit sink and the logfmt rendering of a line: the model keeps the
    key/value pairs; the rendering, with the \<open>"err=null"\<close> marker the logging
    tests read, belongs to the logging collaborator the spec excludes;
  \<^item> a logger that is a typed nil: \<open>logger option\<close> has the nil interface only,
    since whether \<open>Log\<close> on a nil pointer panics depends on the logger type;
  \<^item> the stack traces pkg/errors records, and the Unicode case mapping of
    \<open>strings.ToLower\<close>, reached by the MIME lookup only for non-ASCII
    extensions (\<open>strings_ToLower\<close> folds ASCII letters and keeps other bytes);
  \<^item> the generated mocks under \<open>mocks/\<close> and the tests, whose fixtures are the
    witnesses' inputs;
  \<^item> the struct \<open>loggingMiddleware\<close> of logging.go has no definition of its own:
    it is the constructor \<open>IfaceLogging\<close> of \<open>service\<close>, its two fields the
    constructor's arguments.
  In \<open>Callers\<close> calls are atomic; \<open>Overlap\<close> splits the middleware's statements,
  but the call of the next service (the S3 backend's one client request) stays
  atomic, its ordering against other requests being the backend's.

  \<^bold>\<open>Status.\<close> Every part of the program is modelled; what remains open is
  listed above and lies outside the repository's code.
\<close>

section \<open>Decoration is transparent over runs of calls\<close>

text \<open>Removing the logging layers leaves every run unchanged but for its log.\<close>

lemma svc_run_strip_layers:
  "svc_run api (undecorate svc) cs (w\<lparr>logs := L\<rparr>) =
     (fst (svc_run api svc cs w), (snd (svc_run api svc cs w))\<lparr>logs := L\<rparr>)"
proof (induction cs arbitrary: w L)
  case Nil
  then show ?case by simp
next
  case (Cons c cs)
  obtain res w1 where call: "svc_call api svc c w = (res, w1)" by fastforce
  then have "svc_call api (undecorate svc) c (w\<lparr>logs := L\<rparr>) = (res, w1\<lparr>logs := L\<rparr>)"
    by (simp add: svc_call_undecorate)
  with call Cons.IH show ?case
    by (cases res) (simp_all split: prod.splits)
qed

text \<open>C5: Running any sequence of calls through a handle gives the same results and
  the same world, the log apart, as running it through the handle with its logging
  layers removed: decoration is transparent, whatever the client and the calls.\<close>

theorem svc_run_undecorate:
  "svc_run api (undecorate svc) cs (w\<lparr>logs := L\<rparr>) =
     (fst (svc_run api svc cs w), (snd (svc_run api svc cs w))\<lparr>logs := L\<rparr>)"
  by (rule svc_run_strip_layers)

section \<open>End to end, on the reference store\<close>

text \<open>C20: With the reference object store, a handle built by the factory from
  credentials whose bucket exists stores a file under its name, with the MIME type
  of its extension and the bytes the size asks for, returns the FileInfo of that
  object, and a following Delete removes exactly that object.\<close>

theorem store_then_delete:
  assumes "Endpoint cr \<noteq> []" and "Credentials.Bucket cr \<noteq> []"
    and "Credentials.Bucket cr \<in> set (bucket_names (net w))"
    and "fname \<noteq> []" and "0 \<le> sint sz" and "sint sz \<le> max_single_put"
    and h: "NewService minio_model ''s3'' cr lg w = ((svc, err), w1)"
  shows "err = None
    \<and> fst (svc_run minio_model svc [CStore fname data sz] w1) =
        [Normal (RStore (\<lparr>FullPath = fname, FileInfo.Bucket = Credentials.Bucket cr,
          FileInfo.Region = Credentials.Region cr, MimeType = mime_TypeByExtension (mime w) (filepath_Ext fname),
          Size = word_of_nat (length (take (nat (sint sz)) data)), CreatedAt = clock w + 2\<rparr>, None))]
    \<and> objects (net (snd (svc_run minio_model svc [CStore fname data sz] w1))) =
        (objects (net w))((Credentials.Bucket cr, fname) \<mapsto>
          \<lparr>obj_data = take (nat (sint sz)) data, obj_type = mime_TypeByExtension (mime w) (filepath_Ext fname)\<rparr>)
    \<and> fst (svc_run minio_model svc [CStore fname data sz, CDelete fname] w1) =
        fst (svc_run minio_model svc [CStore fname data sz] w1) @ [Normal (RDelete None)]
    \<and> objects (net (snd (svc_run minio_model svc [CStore fname data sz, CDelete fname] w1))) =
        (objects (net w))((Credentials.Bucket cr, fname) := None)"
proof -
  define s where "s = \<lparr>creds = cr, client = \<lparr>mc_endpoint = Endpoint cr, mc_secure = UseSSL cr\<rparr>\<rparr>"
  have "s3_NewService minio_model cr w = ((Some s, None), w\<lparr>clock := clock w + 1\<rparr>)"
    using mm_s3_NewService [OF assms(1-3)] by (simp add: s_def)
  then have "NewService minio_model ''s3'' cr lg w =
      ((case lg of None \<Rightarrow> IfaceS3 (Some s) | Some l \<Rightarrow> IfaceLogging lg (IfaceS3 (Some s)), None),
       w\<lparr>clock := clock w + 1\<rparr>)"
    by (simp add: NewService_s3)
  with h have err: "err = None" and sv: "svc = (case lg of None \<Rightarrow> IfaceS3 (Some s) | Some l \<Rightarrow> IfaceLogging lg (IfaceS3 (Some s)))"
    and w1: "w1 = w\<lparr>clock := clock w + 1\<rparr>"
    by simp_all
  from sv have und: "undecorate svc = IfaceS3 (Some s)"
    by (cases lg) simp_all
  define mt where "mt = mime_TypeByExtension (mime w) (filepath_Ext fname)"
  define fi where "fi = \<lparr>FullPath = fname, FileInfo.Bucket = Credentials.Bucket cr,
          FileInfo.Region = Credentials.Region cr, MimeType = mt,
          Size = word_of_nat (length (take (nat (sint sz)) data)), CreatedAt = clock w + 2\<rparr>"
  define obj where "obj = \<lparr>obj_data = take (nat (sint sz)) data, obj_type = mt\<rparr>"
  define n1 where "n1 = (net w)\<lparr>objects := (objects (net w))((Credentials.Bucket cr, fname) \<mapsto> obj)\<rparr>"
  have p: "put_call minio_model s fname data sz w1 =
      ((word_of_nat (length (take (nat (sint sz)) data)), None), n1, 1)"
    using mm_PutObject_stores [OF assms(2) assms(4) assms(3,5,6)] w1
    by (simp add: minio_model_def s_def n1_def obj_def mt_def)
  have st: "svc_call minio_model (IfaceS3 (Some s)) (CStore fname data sz) w1 =
     (Normal (RStore (fi, None)), w1\<lparr>net := n1, clock := clock w1 + 1\<rparr>)"
    using s3_Store_ok [OF p] w1 by (simp add: lift_res_def normal_ret_def s_def mt_def fi_def)
  have r: "RemoveObject minio_model (client s) (Credentials.Bucket (creds s)) fname (net (w1\<lparr>net := n1, clock := clock w1 + 1\<rparr>)) =
      (None, n1\<lparr>objects := (objects n1)((Credentials.Bucket cr, fname) := None)\<rparr>, 1)"
    using mm_RemoveObject_removes [OF assms(2,4)] by (simp add: minio_model_def s_def)
  have dl: "svc_call minio_model (IfaceS3 (Some s)) (CDelete fname) (w1\<lparr>net := n1, clock := clock w1 + 1\<rparr>) =
      (Normal (RDelete None), w1\<lparr>net := n1\<lparr>objects := (objects n1)((Credentials.Bucket cr, fname) := None)\<rparr>,
         clock := clock w1 + 1 + 1\<rparr>)"
    using s3_Delete_result [OF r] by (simp add: lift_res_def normal_ret_def)
  have run1: "svc_run minio_model (undecorate svc) [CStore fname data sz] w1 =
      ([Normal (RStore (fi, None))], w1\<lparr>net := n1, clock := clock w1 + 1\<rparr>)"
    using st und by simp
  have run2: "svc_run minio_model (undecorate svc) [CStore fname data sz, CDelete fname] w1 =
      ([Normal (RStore (fi, None)), Normal (RDelete None)],
       w1\<lparr>net := n1\<lparr>objects := (objects n1)((Credentials.Bucket cr, fname) := None)\<rparr>, clock := clock w1 + 1 + 1\<rparr>)"
    using st dl und by simp
  have n2: "(objects n1)((Credentials.Bucket cr, fname) := None) = (objects (net w))((Credentials.Bucket cr, fname) := None)"
    by (simp add: n1_def)
  have t1: "svc_run minio_model (undecorate svc) [CStore fname data sz] w1 =
      (fst (svc_run minio_model svc [CStore fname data sz] w1), (snd (svc_run minio_model svc [CStore fname data sz] w1))\<lparr>logs := logs w1\<rparr>)"
    using svc_run_strip_layers [of minio_model svc "[CStore fname data sz]" "logs w1" w1] by simp
  have t2: "svc_run minio_model (undecorate svc) [CStore fname data sz, CDelete fname] w1 =
      (fst (svc_run minio_model svc [CStore fname data sz, CDelete fname] w1),
       (snd (svc_run minio_model svc [CStore fname data sz, CDelete fname] w1))\<lparr>logs := logs w1\<rparr>)"
    using svc_run_strip_layers [of minio_model svc "[CStore fname data sz, CDelete fname]" "logs w1" w1] by simp
  have a1: "fst (svc_run minio_model svc [CStore fname data sz] w1) = [Normal (RStore (fi, None))]"
    using run1 t1 by (metis fst_conv)
  have a2: "fst (svc_run minio_model svc [CStore fname data sz, CDelete fname] w1) =
      [Normal (RStore (fi, None)), Normal (RDelete None)]"
    using run2 t2 by (metis fst_conv)
  have "net (w1\<lparr>net := n1, clock := clock w1 + 1\<rparr>) =
      net ((snd (svc_run minio_model svc [CStore fname data sz] w1))\<lparr>logs := logs w1\<rparr>)"
    using run1 t1 by (metis snd_conv)
  then have b1: "net (snd (svc_run minio_model svc [CStore fname data sz] w1)) = n1"
    by (simp del: svc_run.simps)
  have "net (w1\<lparr>net := n1\<lparr>objects := (objects n1)((Credentials.Bucket cr, fname) := None)\<rparr>, clock := clock w1 + 1 + 1\<rparr>) =
      net ((snd (svc_run minio_model svc [CStore fname data sz, CDelete fname] w1))\<lparr>logs := logs w1\<rparr>)"
    using run2 t2 by (metis snd_conv)
  then have "net (snd (svc_run minio_model svc [CStore fname data sz, CDelete fname] w1)) =
      n1\<lparr>objects := (objects n1)((Credentials.Bucket cr, fname) := None)\<rparr>"
    by (simp del: svc_run.simps)
  then have b2: "objects (net (snd (svc_run minio_model svc [CStore fname data sz, CDelete fname] w1))) =
      (objects (net w))((Credentials.Bucket cr, fname) := None)"
    by (simp del: svc_run.simps add: n2)
  show ?thesis
    using err a1 a2 b1 b2 by (simp del: svc_run.simps add: fi_def mt_def n1_def obj_def)
qed
theorem store_then_delete_witness:
  "snd (fst (NewService minio_model ''s3'' test_creds (Some (Logger 0)) test_world)) = None
   \<and> objects (net (snd (svc_run minio_model (fst (fst (NewService minio_model ''s3'' test_creds (Some (Logger 0)) test_world)))
        [CStore ''test/test.xml'' test_data 20, CDelete ''test/test.xml'']
        (snd (NewService minio_model ''s3'' test_creds (Some (Logger 0)) test_world))))) = Map.empty"
proof -
  have h: "NewService minio_model ''s3'' test_creds (Some (Logger 0)) test_world =
     ((fst (fst (NewService minio_model ''s3'' test_creds (Some (Logger 0)) test_world)),
       snd (fst (NewService minio_model ''s3'' test_creds (Some (Logger 0)) test_world))),
      snd (NewService minio_model ''s3'' test_creds (Some (Logger 0)) test_world))"
    by simp
  have a: "Endpoint test_creds \<noteq> []" "Credentials.Bucket test_creds \<noteq> []"
    "Credentials.Bucket test_creds \<in> set (bucket_names (net test_world))"
    "''test/test.xml'' \<noteq> []" "0 \<le> sint (20::int64)" "sint (20::int64) \<le> max_single_put"
    by (simp_all add: fixture_defs max_single_put_def)
  show ?thesis
    using store_then_delete [OF a h, where data = test_data]
    by (simp del: svc_run.simps add: test_world_def)
qed

end
